theory Spec2Isabelle
  imports Main
begin

chapter \<open>MyLocalBarista: the waitlist form handler and the customization controller\<close>

text \<open>
  A shallow embedding of \<^verbatim>\<open>js/form-handler.js\<close> (class \<^verbatim>\<open>WaitlistFormHandler\<close>) and of
  \<^verbatim>\<open>js/customization.js\<close> (class \<^verbatim>\<open>CustomizationController\<close>).

  JavaScript strings are modelled by \<^typ>\<open>string\<close>; a \<^typ>\<open>char\<close> stands for one code unit
  below 256, so \<open>length\<close> is the \<^verbatim>\<open>.length\<close> of such a string. Objects of the page
  (form fields, the submit button, colour pickers, stylesheet links) are records that are
  passed in and returned updated. Console output at level \<^verbatim>\<open>log\<close> and \<^verbatim>\<open>warn\<close>, inline
  style attributes, keyboard focus and animations are left out; calls of
  \<^verbatim>\<open>console.error\<close> of the customization controller are recorded.
\<close>

section \<open>Strings\<close>

text \<open>
  The white space of ECMAScript (\<^verbatim>\<open>WhiteSpace\<close> and \<^verbatim>\<open>LineTerminator\<close>) among the code
  units below 256: TAB, LF, VT, FF, CR, SP and NBSP. Both \<^verbatim>\<open>String.prototype.trim\<close> and
  the class \<^verbatim>\<open>\s\<close> of regular expressions use this set.
\<close>

definition isWhiteSpace :: "char \<Rightarrow> bool" where
  "isWhiteSpace c \<longleftrightarrow>
     c \<in> set [CHR 0x09, CHR 0x0A, CHR 0x0B, CHR 0x0C, CHR 0x0D, CHR 0x20, CHR 0xA0]"

definition isDigit :: "char \<Rightarrow> bool" where
  "isDigit c \<longleftrightarrow> c \<in> set ''0123456789''"

definition trim :: "string \<Rightarrow> string" where
  "trim s = rev (dropWhile isWhiteSpace (rev (dropWhile isWhiteSpace s)))"

text \<open>
  A text that may hold code units of 256 and above is a list of numbers; \<open>units\<close> gives
  the code units of a string.
\<close>

type_synonym codeUnits = "nat list"

definition units :: "string \<Rightarrow> codeUnits" where
  "units s = map of_char s"

text \<open>
  \<^verbatim>\<open>toUpperCase\<close> on the code units below 256: the letters of ASCII and the small letters
  from 0xE0 to 0xFE (0xF7 is the division sign) go down by 0x20, the micro sign becomes
  the capital mu U+039C, the sharp s becomes \<^verbatim>\<open>SS\<close>, and 0xFF becomes U+0178.
\<close>

definition upperCaseOf :: "char \<Rightarrow> codeUnits" where
  "upperCaseOf c =
     (let n = (of_char c :: nat)
      in if (0x61 \<le> n \<and> n \<le> 0x7A) \<or> (0xE0 \<le> n \<and> n \<le> 0xFE \<and> n \<noteq> 0xF7) then [n - 0x20]
         else if n = 0xB5 then [0x39C]
         else if n = 0xDF then [0x53, 0x53]
         else if n = 0xFF then [0x178]
         else [n])"

definition toUpperCase :: "string \<Rightarrow> codeUnits" where
  "toUpperCase s = concat (map upperCaseOf s)"

text \<open>
  \<^verbatim>\<open>toLowerCase\<close> on the code units below 256: the capital letters of ASCII and those
  from 0xC0 to 0xDE (0xD7 is the multiplication sign) go up by 0x20.
\<close>

definition lowerCaseOf :: "char \<Rightarrow> char" where
  "lowerCaseOf c =
     (let n = (of_char c :: nat)
      in if (0x41 \<le> n \<and> n \<le> 0x5A) \<or> (0xC0 \<le> n \<and> n \<le> 0xDE \<and> n \<noteq> 0xD7)
         then char_of (n + 0x20) else c)"

definition toLowerCase :: "string \<Rightarrow> string" where
  "toLowerCase s = map lowerCaseOf s"

section \<open>Regular expressions\<close>

text \<open>
  The two patterns of the form handler use character classes, concatenation, \<^verbatim>\<open>+\<close> and
  a counted repetition. They are anchored at both ends and have no flags, so
  \<^verbatim>\<open>regex.test(s)\<close> holds exactly when the whole of \<open>s\<close> is in the language of the
  pattern. The matcher below decides this by derivatives.
\<close>

datatype cclass =
    NotSpaceOrAt    \<comment> \<open>\<^verbatim>\<open>[^\s@]\<close>\<close>
  | DigitClass      \<comment> \<open>\<^verbatim>\<open>\d\<close>\<close>
  | Literal char    \<comment> \<open>one literal character\<close>

fun inClass :: "cclass \<Rightarrow> char \<Rightarrow> bool" where
  "inClass NotSpaceOrAt c = (\<not> isWhiteSpace c \<and> c \<noteq> CHR ''@'')"
| "inClass DigitClass c = isDigit c"
| "inClass (Literal a) c = (c = a)"

datatype regex =
    NoMatch
  | Empty
  | Chr cclass
  | Alt regex regex
  | Cat regex regex
  | Star regex

definition OneOrMore :: "regex \<Rightarrow> regex" where
  "OneOrMore r = Cat r (Star r)"

fun Times :: "nat \<Rightarrow> regex \<Rightarrow> regex" where
  "Times 0 r = Empty"
| "Times (Suc n) r = Cat r (Times n r)"

fun nullable :: "regex \<Rightarrow> bool" where
  "nullable NoMatch = False"
| "nullable Empty = True"
| "nullable (Chr k) = False"
| "nullable (Alt r s) = (nullable r \<or> nullable s)"
| "nullable (Cat r s) = (nullable r \<and> nullable s)"
| "nullable (Star r) = True"

fun after :: "char \<Rightarrow> regex \<Rightarrow> regex" where
  "after c NoMatch = NoMatch"
| "after c Empty = NoMatch"
| "after c (Chr k) = (if inClass k c then Empty else NoMatch)"
| "after c (Alt r s) = Alt (after c r) (after c s)"
| "after c (Cat r s) =
     (if nullable r then Alt (Cat (after c r) s) (after c s) else Cat (after c r) s)"
| "after c (Star r) = Cat (after c r) (Star r)"

fun test :: "regex \<Rightarrow> string \<Rightarrow> bool" where
  "test r [] = nullable r"
| "test r (c # cs) = test (after c r) cs"

text \<open>The languages, used to say what the patterns accept.\<close>

inductive_set repeated :: "string set \<Rightarrow> string set" for A :: "string set" where
  none: "[] \<in> repeated A"
| more: "u \<in> A \<Longrightarrow> v \<in> repeated A \<Longrightarrow> u @ v \<in> repeated A"

fun lang :: "regex \<Rightarrow> string set" where
  "lang NoMatch = {}"
| "lang Empty = {[]}"
| "lang (Chr k) = {[c] |c. inClass k c}"
| "lang (Alt r s) = lang r \<union> lang s"
| "lang (Cat r s) = {u @ v |u v. u \<in> lang r \<and> v \<in> lang s}"
| "lang (Star r) = repeated (lang r)"

text \<open>\<^verbatim>\<open>/^[^\s@]+@[^\s@]+\.[^\s@]+$/\<close>\<close>

definition emailRegex :: regex where
  "emailRegex =
     Cat (OneOrMore (Chr NotSpaceOrAt))
      (Cat (Chr (Literal CHR ''@''))
        (Cat (OneOrMore (Chr NotSpaceOrAt))
          (Cat (Chr (Literal CHR ''.''))
            (OneOrMore (Chr NotSpaceOrAt)))))"

definition isValidEmail :: "string \<Rightarrow> bool" where
  "isValidEmail email = test emailRegex email"

text \<open>\<^verbatim>\<open>/^\d{5}$/\<close>\<close>

definition zipRegex :: regex where
  "zipRegex = Times 5 (Chr DigitClass)"

definition isValidZipCode :: "string \<Rightarrow> bool" where
  "isValidZipCode z = test zipRegex z"

text \<open>What the spec calls a \<open>local@domain.tld\<close> pattern and five digits.\<close>

definition plainPart :: "string \<Rightarrow> bool" where
  "plainPart w \<longleftrightarrow> w \<noteq> [] \<and> (\<forall>c \<in> set w. \<not> isWhiteSpace c \<and> c \<noteq> CHR ''@'')"

definition localAtDomainTld :: "string \<Rightarrow> bool" where
  "localAtDomainTld s \<longleftrightarrow>
     (\<exists>l d t. s = l @ ''@'' @ d @ ''.'' @ t \<and> plainPart l \<and> plainPart d \<and> plainPart t)"

definition fiveDigits :: "string \<Rightarrow> bool" where
  "fiveDigits s \<longleftrightarrow> length s = 5 \<and> (\<forall>c \<in> set s. isDigit c)"

section \<open>The waitlist form: fields and their validation\<close>

text \<open>
  A form control as \<^verbatim>\<open>validateField\<close> sees it. \<open>ftype\<close> is \<^verbatim>\<open>field.type\<close>, empty when
  the element has none; \<open>groupErrors\<close> is \<open>None\<close> when the control has no
  \<^verbatim>\<open>.form-group\<close> ancestor and otherwise lists the texts of the \<^verbatim>\<open>.field-error\<close>
  elements of that group in document order. \<open>defaultValue\<close> is what \<^verbatim>\<open>form.reset()\<close>
  puts back.
\<close>

record field =
  fvalue :: string
  defaultValue :: string
  required :: bool
  ftype :: string
  tagName :: string
  fid :: string
  errorClass :: bool
  groupErrors :: "string list option"

definition clearFieldError :: "field \<Rightarrow> field" where
  "clearFieldError f =
     f\<lparr>errorClass := False, groupErrors := map_option (\<lambda>ms. drop 1 ms) (groupErrors f)\<rparr>"

definition showFieldError :: "field \<Rightarrow> string \<Rightarrow> field" where
  "showFieldError f message =
     (let g = clearFieldError f
      in g\<lparr>errorClass := True, groupErrors := map_option (\<lambda>ms. ms @ [message]) (groupErrors g)\<rparr>)"

text \<open>The discriminant of the \<^verbatim>\<open>switch\<close>: \<^verbatim>\<open>field.type || field.tagName.toLowerCase()\<close>.\<close>

definition fieldKind :: "field \<Rightarrow> string" where
  "fieldKind f = (if ftype f \<noteq> [] then ftype f else toLowerCase (tagName f))"

text \<open>
  The pair \<^verbatim>\<open>(isValid, errorMessage)\<close> that \<^verbatim>\<open>validateField\<close> has computed when it
  reaches its display step: each test that fails overwrites both variables.
\<close>

definition validateField_verdict :: "field \<Rightarrow> bool \<times> string" where
  "validateField_verdict f =
     (let v = trim (fvalue f);
          r0 = (if required f \<and> v = [] then (False, ''This field is required'')
                else (True, ''''))
      in if fieldKind f = ''email'' then
           (if v \<noteq> [] \<and> \<not> isValidEmail v
            then (False, ''Please enter a valid email address'') else r0)
         else if fieldKind f = ''text'' then
           (let r1 = (if fid f = ''zip'' \<and> v \<noteq> [] \<and> \<not> isValidZipCode v
                      then (False, ''Please enter a valid 5-digit zip code'') else r0);
                r2 = (if fid f = ''name'' \<and> v \<noteq> [] \<and> length v < 2
                      then (False, ''Name must be at least 2 characters long'') else r1)
            in r2)
         else r0)"

text \<open>\<^verbatim>\<open>validateField\<close>: the result and the control as it is displayed afterwards.\<close>

fun validateField :: "field option \<Rightarrow> bool \<times> field option" where
  "validateField None = (True, None)"
| "validateField (Some f) =
     (case validateField_verdict f of
        (isValid, errorMessage) \<Rightarrow>
          (isValid, Some (if \<not> isValid then showFieldError f errorMessage
                          else clearFieldError f)))"

section \<open>The waitlist form: the handler and the page it works on\<close>

text \<open>
  Property lookup \<^verbatim>\<open>table[key]\<close> on an object literal: an own property, or a member that
  every object inherits from \<^verbatim>\<open>Object.prototype\<close>, or \<^verbatim>\<open>undefined\<close>.
\<close>

datatype 'a property = Own 'a | Inherited | Absent

definition objectPrototypeKeys :: "string list" where
  "objectPrototypeKeys =
     [''constructor'', ''hasOwnProperty'', ''isPrototypeOf'', ''propertyIsEnumerable'',
      ''toLocaleString'', ''toString'', ''valueOf'', ''__proto__'',
      ''__defineGetter__'', ''__defineSetter__'', ''__lookupGetter__'', ''__lookupSetter__'']"

definition getProperty :: "(string \<times> 'a) list \<Rightarrow> string \<Rightarrow> 'a property" where
  "getProperty table key =
     (case map_of table key of
        Some v \<Rightarrow> Own v
      | None \<Rightarrow> if key \<in> set objectPrototypeKeys then Inherited else Absent)"

text \<open>
  A value of the submission: a string, or the member of \<^verbatim>\<open>Object.prototype\<close> of that name
  (a function, and the prototype object itself for \<^verbatim>\<open>__proto__\<close>).
\<close>

datatype entryValue = Text string | ProtoMember string

definition interestMapping :: "(string \<times> string) list" where
  "interestMapping =
     [(''training'', ''Training - Learn espresso & latte art''),
      (''events'', ''Events - Barista for gatherings''),
      (''machine-help'', ''Machine Help - Equipment maintenance''),
      (''all'', ''All services interest me'')]"

definition espressoMachineMapping :: "(string \<times> string) list" where
  "espressoMachineMapping =
     [(''yes'', ''Yes, I have an espresso machine''),
      (''no'', ''No, but I'm interested in getting one''),
      (''considering'', ''I'm considering purchasing one'')]"

text \<open>\<^verbatim>\<open>mapping[key] || key\<close>, for a key that is a string.\<close>

definition mappedOrSelf :: "(string \<times> string) list \<Rightarrow> string \<Rightarrow> entryValue" where
  "mappedOrSelf mapping key =
     (case getProperty mapping key of
        Own sentence \<Rightarrow> if sentence \<noteq> [] then Text sentence else Text key
      | Inherited \<Rightarrow> ProtoMember key
      | Absent \<Rightarrow> Text key)"

record formData =
  fd_name :: string
  fd_email :: string
  fd_zip :: string
  fd_interest :: entryValue
  fd_espresso_machine :: entryValue
  fd_comments :: string
  fd_timestamp :: string
  fd_source :: string

datatype json =
    JNull
  | JBool bool
  | JNumber int
  | JString string
  | JArray "json list"
  | JObject "(string \<times> json) list"

text \<open>
  \<^verbatim>\<open>JSON.stringify\<close> of the submission, as \<^verbatim>\<open>JSON.parse\<close> reads it back: the properties in
  insertion order; a property whose value is a function is left out, and
  \<^verbatim>\<open>Object.prototype\<close> has no enumerable property of its own.
\<close>

fun jsonOfEntry :: "string \<Rightarrow> entryValue \<Rightarrow> (string \<times> json) list" where
  "jsonOfEntry key (Text t) = [(key, JString t)]"
| "jsonOfEntry key (ProtoMember m) = (if m = ''__proto__'' then [(key, JObject [])] else [])"

definition toJson :: "formData \<Rightarrow> json" where
  "toJson d =
     JObject
      ([(''name'', JString (fd_name d)),
        (''email'', JString (fd_email d)),
        (''zip'', JString (fd_zip d))]
       @ jsonOfEntry ''interest'' (fd_interest d)
       @ jsonOfEntry ''espresso_machine'' (fd_espresso_machine d)
       @ [(''comments'', JString (fd_comments d)),
          (''timestamp'', JString (fd_timestamp d)),
          (''source'', JString (fd_source d))])"

text \<open>
  The string under the key \<^verbatim>\<open>mylocalbarista_waitlist\<close> of \<^verbatim>\<open>localStorage\<close>, given by what
  \<^verbatim>\<open>getItem\<close> and \<^verbatim>\<open>JSON.parse\<close> make of it: no item (\<^verbatim>\<open>null\<close>), the empty string,
  a text that \<^verbatim>\<open>JSON.parse\<close> rejects, or a text with a parsed value.
\<close>

datatype stored = NoItem | EmptyText | Malformed | Wellformed json

text \<open>Whether the browser lets the page read and write the storage.\<close>

datatype storageFault = NoFault | ReadFails | WriteFails

datatype exn = SyntaxError | TypeError | StorageError | NetworkError

datatype buttonHtml =
    Html string
  | Spinner    \<comment> \<open>the spinner icon and \<^verbatim>\<open>Joining Waitlist...\<close>\<close>

record button =
  disabled :: bool
  innerHTML :: buttonHtml

text \<open>
  The handler with the parts of the page it reads and writes. \<open>f_name\<close> to
  \<open>f_comments\<close> are \<^verbatim>\<open>this.fields\<close> in the order of the object literal; \<open>checkedRadio\<close>
  is the value of the element that
  \<^verbatim>\<open>form.querySelector('input[name="espresso_machine"]:checked')\<close> finds, \<open>defaultRadio\<close>
  the one checked by the markup; \<open>generalError\<close> is the message of the
  \<^verbatim>\<open>.general-error\<close> element; \<open>inFlight\<close> holds the submission of a call of
  \<^verbatim>\<open>handleSubmit\<close> that is suspended at \<^verbatim>\<open>await fetch(...)\<close>; \<open>requests\<close> lists the bodies
  given to \<^verbatim>\<open>fetch\<close>, each value as it is passed to \<^verbatim>\<open>FormData.append\<close>.
\<close>

record handler =
  f_name :: "field option"
  f_email :: "field option"
  f_zip :: "field option"
  f_interest :: "field option"
  f_espressoMachine :: "field option"
  f_comments :: "field option"
  checkedRadio :: "string option"
  defaultRadio :: "string option"
  generalError :: "string option"
  isSubmitting :: bool
  submitBtn :: "button option"
  originalButtonText :: buttonHtml
  inFlight :: "formData option"
  requests :: "(string \<times> entryValue) list list"
  stored :: stored
  storageFault :: storageFault
  successOverlays :: nat

definition showGeneralError :: "string \<Rightarrow> handler \<Rightarrow> handler" where
  "showGeneralError message s = s\<lparr>generalError := Some message\<rparr>"

text \<open>One round of the \<^verbatim>\<open>forEach\<close> of \<^verbatim>\<open>validateForm\<close>.\<close>

definition visitField :: "field option \<Rightarrow> bool \<Rightarrow> bool \<times> field option" where
  "visitField fo isFormValid =
     (case fo of
        None \<Rightarrow> (isFormValid, None)
      | Some f \<Rightarrow>
          (case validateField (Some f) of
             (ok, f') \<Rightarrow> (if \<not> ok then False else isFormValid, f')))"

definition validateForm :: "handler \<Rightarrow> bool \<times> handler" where
  "validateForm s =
     (case visitField (f_name s) True of (v1, n) \<Rightarrow>
      case visitField (f_email s) v1 of (v2, e) \<Rightarrow>
      case visitField (f_zip s) v2 of (v3, z) \<Rightarrow>
      case visitField (f_interest s) v3 of (v4, i) \<Rightarrow>
      case visitField (f_espressoMachine s) v4 of (v5, m) \<Rightarrow>
      case visitField (f_comments s) v5 of (v6, c) \<Rightarrow>
        (let s' = s\<lparr>f_name := n, f_email := e, f_zip := z, f_interest := i,
                     f_espressoMachine := m, f_comments := c\<rparr>
         in case checkedRadio s' of
              None \<Rightarrow>
                (False,
                 showGeneralError ''Please select whether you own an espresso machine'' s')
            | Some radioSelected \<Rightarrow> (v6, s')))"

definition clearControl :: "field \<Rightarrow> field" where
  "clearControl f = f\<lparr>errorClass := False, groupErrors := map_option (\<lambda>ms. []) (groupErrors f)\<rparr>"

definition clearAllErrors :: "handler \<Rightarrow> handler" where
  "clearAllErrors s =
     s\<lparr>f_name := map_option clearControl (f_name s),
       f_email := map_option clearControl (f_email s),
       f_zip := map_option clearControl (f_zip s),
       f_interest := map_option clearControl (f_interest s),
       f_espressoMachine := map_option clearControl (f_espressoMachine s),
       f_comments := map_option clearControl (f_comments s),
       generalError := None\<rparr>"

definition setSubmittingState :: "bool \<Rightarrow> handler \<Rightarrow> handler" where
  "setSubmittingState submitting s =
     (let s' = s\<lparr>isSubmitting := submitting\<rparr>
      in case submitBtn s' of
           None \<Rightarrow> s'
         | Some b \<Rightarrow>
             if submitting
             then s'\<lparr>submitBtn := Some (b\<lparr>disabled := True, innerHTML := Spinner\<rparr>)\<rparr>
             else s'\<lparr>submitBtn :=
                       Some (b\<lparr>disabled := False, innerHTML := originalButtonText s'\<rparr>)\<rparr>)"

text \<open>\<open>now\<close> is \<^verbatim>\<open>new Date().toISOString()\<close>.\<close>

definition collectFormData :: "string \<Rightarrow> handler \<Rightarrow> formData" where
  "collectFormData now s =
     (let espressoMachineValue = (case checkedRadio s of None \<Rightarrow> [] | Some v \<Rightarrow> v)
      in \<lparr>fd_name = (case f_name s of None \<Rightarrow> [] | Some f \<Rightarrow> trim (fvalue f)),
          fd_email = (case f_email s of None \<Rightarrow> [] | Some f \<Rightarrow> trim (fvalue f)),
          fd_zip = (case f_zip s of None \<Rightarrow> [] | Some f \<Rightarrow> trim (fvalue f)),
          fd_interest =
            (case f_interest s of
               None \<Rightarrow> Text []
             | Some f \<Rightarrow> mappedOrSelf interestMapping (fvalue f)),
          fd_espresso_machine = mappedOrSelf espressoMachineMapping espressoMachineValue,
          fd_comments = (case f_comments s of None \<Rightarrow> [] | Some f \<Rightarrow> trim (fvalue f)),
          fd_timestamp = now,
          fd_source = ''MyLocalBarista Landing Page''\<rparr>)"

definition GOOGLE_FORM_ENTRIES :: "(string \<times> string) list" where
  "GOOGLE_FORM_ENTRIES =
     [(''name'', ''entry.847057752''),
      (''email'', ''entry.508055351''),
      (''zip'', ''entry.832508456''),
      (''interest'', ''entry.1561535688''),
      (''espresso_machine'', ''entry.1117044731''),
      (''comments'', ''entry.1572710206'')]"

definition entryId :: "string \<Rightarrow> string" where
  "entryId key = (case map_of GOOGLE_FORM_ENTRIES key of Some e \<Rightarrow> e | None \<Rightarrow> ''undefined'')"

text \<open>The \<^verbatim>\<open>FormData\<close> that \<^verbatim>\<open>submitToGoogleForms\<close> builds, in the order of its appends.\<close>

definition googleFormData :: "formData \<Rightarrow> (string \<times> entryValue) list" where
  "googleFormData d =
     [(entryId ''name'', Text (fd_name d)),
      (entryId ''email'', Text (fd_email d)),
      (entryId ''zip'', Text (fd_zip d)),
      (entryId ''interest'', fd_interest d),
      (entryId ''espresso_machine'', fd_espresso_machine d),
      (entryId ''comments'', Text (fd_comments d))]"

text \<open>
  The body of the \<^verbatim>\<open>try\<close> of \<^verbatim>\<open>storeFormDataLocally\<close>: \<^verbatim>\<open>getItem\<close>, \<^verbatim>\<open>|| '[]'\<close>,
  \<^verbatim>\<open>JSON.parse\<close>, \<^verbatim>\<open>push\<close> (which only an array has) and \<^verbatim>\<open>setItem\<close>.
\<close>

definition storeFormDataLocally_try :: "formData \<Rightarrow> handler \<Rightarrow> exn + handler" where
  "storeFormDataLocally_try d s =
     (if storageFault s = ReadFails then Inl StorageError
      else
        case (case stored s of
                NoItem \<Rightarrow> Inr (JArray [])
              | EmptyText \<Rightarrow> Inr (JArray [])
              | Malformed \<Rightarrow> Inl SyntaxError
              | Wellformed j \<Rightarrow> Inr j) of
          Inl e \<Rightarrow> Inl e
        | Inr (JArray existingData) \<Rightarrow>
            if storageFault s = WriteFails then Inl StorageError
            else Inr (s\<lparr>stored := Wellformed (JArray (existingData @ [toJson d]))\<rparr>)
        | Inr other \<Rightarrow> Inl TypeError)"

text \<open>\<^verbatim>\<open>storeFormDataLocally\<close>: the \<^verbatim>\<open>catch\<close> only warns on the console.\<close>

definition storeFormDataLocally :: "formData \<Rightarrow> handler \<Rightarrow> handler" where
  "storeFormDataLocally d s =
     (case storeFormDataLocally_try d s of Inl e \<Rightarrow> s | Inr s' \<Rightarrow> s')"

text \<open>
  \<^verbatim>\<open>submitToGoogleForms\<close> up to its \<^verbatim>\<open>await\<close>: the request is handed to \<^verbatim>\<open>fetch\<close> and the
  call is suspended.
\<close>

definition submitToGoogleForms_begin :: "formData \<Rightarrow> handler \<Rightarrow> handler" where
  "submitToGoogleForms_begin d s =
     s\<lparr>requests := requests s @ [googleFormData d], inFlight := Some d\<rparr>"

datatype outcome = Resolved | Rejected exn

text \<open>
  \<^verbatim>\<open>submitToGoogleForms\<close> from the \<^verbatim>\<open>await\<close> on: \<open>Inr True\<close> is \<^verbatim>\<open>return true\<close>,
  \<open>Inl e\<close> is \<^verbatim>\<open>throw error\<close>; the handler is the one the caller continues with.
\<close>

definition submitToGoogleForms_end ::
  "outcome \<Rightarrow> formData \<Rightarrow> handler \<Rightarrow> (exn + bool) \<times> handler" where
  "submitToGoogleForms_end out d s =
     (case out of
        Resolved \<Rightarrow> (Inr True, storeFormDataLocally d s)
      | Rejected e \<Rightarrow> (Inl e, storeFormDataLocally d s))"

definition showSuccessMessage :: "handler \<Rightarrow> handler" where
  "showSuccessMessage s = s\<lparr>successOverlays := Suc (successOverlays s)\<rparr>"

definition showSubmissionError :: "handler \<Rightarrow> handler" where
  "showSubmissionError s =
     showGeneralError
       ''Sorry, there was an error submitting your information. Please try again in a moment.'' s"

text \<open>\<^verbatim>\<open>form.reset()\<close> on one control: a radio button or checkbox keeps its value.\<close>

definition resetControl :: "field \<Rightarrow> field" where
  "resetControl f =
     (if ftype f = ''radio'' \<or> ftype f = ''checkbox'' then f else f\<lparr>fvalue := defaultValue f\<rparr>)"

definition resetForm :: "handler \<Rightarrow> handler" where
  "resetForm s =
     clearAllErrors
      (s\<lparr>f_name := map_option resetControl (f_name s),
         f_email := map_option resetControl (f_email s),
         f_zip := map_option resetControl (f_zip s),
         f_interest := map_option resetControl (f_interest s),
         f_espressoMachine := map_option resetControl (f_espressoMachine s),
         f_comments := map_option resetControl (f_comments s),
         checkedRadio := defaultRadio s\<rparr>)"

text \<open>\<^verbatim>\<open>handleSubmit\<close> from the submit event to the point where it returns or is suspended.\<close>

definition handleSubmit :: "string \<Rightarrow> handler \<Rightarrow> handler" where
  "handleSubmit now s =
     (if isSubmitting s then s
      else
        case validateForm (clearAllErrors s) of
          (valid, s1) \<Rightarrow>
            if \<not> valid then showGeneralError ''Please fix the errors above and try again'' s1
            else
              (let s2 = setSubmittingState True s1;
                   formData = collectFormData now s2
               in submitToGoogleForms_begin formData s2))"

text \<open>
  The rest of \<^verbatim>\<open>handleSubmit\<close>, run when the promise of \<^verbatim>\<open>fetch\<close> settles: the end of
  \<^verbatim>\<open>submitToGoogleForms\<close>, then the \<^verbatim>\<open>try\<close>, \<^verbatim>\<open>catch\<close> and \<^verbatim>\<open>finally\<close> branches.
\<close>

definition handleSubmit_resume :: "outcome \<Rightarrow> handler \<Rightarrow> handler" where
  "handleSubmit_resume out s =
     (case inFlight s of
        None \<Rightarrow> s
      | Some formData \<Rightarrow>
          (case submitToGoogleForms_end out formData (s\<lparr>inFlight := None\<rparr>) of
             (Inr ok, s1) \<Rightarrow> setSubmittingState False (resetForm (showSuccessMessage s1))
           | (Inl error, s1) \<Rightarrow> setSubmittingState False (showSubmissionError s1)))"

text \<open>The entries of the log as a reader of the storage finds them.\<close>

definition logEntries :: "stored \<Rightarrow> json list" where
  "logEntries st = (case st of Wellformed (JArray entries) \<Rightarrow> entries | _ \<Rightarrow> [])"

subsection \<open>The course of a submission\<close>

text \<open>
  The submit event of the form and the settling of the promise of \<^verbatim>\<open>fetch\<close> are the two
  events that run code of the handler on a page.
\<close>

datatype event = SubmitEvent string | FetchSettled outcome

fun react :: "handler \<Rightarrow> event \<Rightarrow> handler" where
  "react s (SubmitEvent now) = handleSubmit now s"
| "react s (FetchSettled out) = handleSubmit_resume out s"

text \<open>The submission that \<^verbatim>\<open>handleSubmit\<close> collects once the form has passed validation.\<close>

definition submission :: "string \<Rightarrow> handler \<Rightarrow> formData" where
  "submission now s =
     collectFormData now (setSubmittingState True (snd (validateForm (clearAllErrors s))))"

text \<open>The storage can be read and written and holds no item, an empty text or an array.\<close>

definition canAppend :: "handler \<Rightarrow> bool" where
  "canAppend s \<longleftrightarrow>
     storageFault s = NoFault \<and>
     (case stored s of
        NoItem \<Rightarrow> True
      | EmptyText \<Rightarrow> True
      | Malformed \<Rightarrow> False
      | Wellformed j \<Rightarrow> (case j of JArray entries \<Rightarrow> True | _ \<Rightarrow> False))"

definition member :: "json \<Rightarrow> string \<Rightarrow> json option" where
  "member j key = (case j of JObject members \<Rightarrow> map_of members key | _ \<Rightarrow> None)"

section \<open>The customization controller\<close>

text \<open>An argument that is a string or \<^verbatim>\<open>undefined\<close>.\<close>

datatype arg = Undefined | Str string

text \<open>A call that returns, or throws after the changes it has made so far.\<close>

datatype 'a completion = Done 'a | Threw exn 'a

fun andThen :: "'a completion \<Rightarrow> ('a \<Rightarrow> 'a completion) \<Rightarrow> 'a completion" where
  "andThen (Done s) f = f s"
| "andThen (Threw e s) f = Threw e s"

fun stateOf :: "'a completion \<Rightarrow> 'a" where
  "stateOf (Done s) = s"
| "stateOf (Threw e s) = s"

fun thrown :: "'a completion \<Rightarrow> exn option" where
  "thrown (Done s) = None"
| "thrown (Threw e s) = Some e"

text \<open>
  A colour picker, an \<^verbatim>\<open>input\<close> of type \<^verbatim>\<open>color\<close>, with the text of the
  \<^verbatim>\<open>.color-value\<close> element of its \<^verbatim>\<open>.color-control\<close> group; \<open>display\<close> is \<open>None\<close>
  when there is no such element.
\<close>

record picker =
  pvalue :: string
  display :: "codeUnits option"

text \<open>
  What an \<^verbatim>\<open>input\<close> of type \<^verbatim>\<open>color\<close> keeps of a text assigned to its \<^verbatim>\<open>value\<close>: a
  \<^verbatim>\<open>#\<close> with six hexadecimal digits in lower case, and \<^verbatim>\<open>#000000\<close> for any other text.
\<close>

definition isHexDigit :: "char \<Rightarrow> bool" where
  "isHexDigit c \<longleftrightarrow> c \<in> set ''0123456789abcdefABCDEF''"

definition sanitizeColor :: "string \<Rightarrow> string" where
  "sanitizeColor t =
     (if length t = 7 \<and> take 1 t = ''#'' \<and> list_all isHexDigit (drop 1 t)
      then toLowerCase t else ''#000000'')"

text \<open>A \<^verbatim>\<open>link\<close> element with the id \<^verbatim>\<open>style-theme\<close>; \<open>linkId\<close> is its identity.\<close>

record link =
  linkId :: nat
  href :: string

text \<open>What the \<^verbatim>\<open>onload\<close> and \<^verbatim>\<open>onerror\<close> closures of one call of \<^verbatim>\<open>switchTheme\<close> refer to.\<close>

record themeLoad =
  oldLink :: nat
  newLink :: nat
  theme :: string

datatype consoleError = UnknownPreset string | ThemeLoadFailed string

text \<open>
  The controller with the parts of the page it reads and writes: \<open>themeLinks\<close> are the
  elements with the id \<^verbatim>\<open>style-theme\<close> in document order, \<open>loads\<close> the stylesheet loads
  that have not settled yet, \<open>transitioning\<close> the class \<^verbatim>\<open>theme-transitioning\<close> of the
  body, \<open>cssVars\<close> the custom properties set on the root element, \<open>roundnessSlider\<close>
  the value of the slider and \<open>sliderValue\<close> the text of its display, \<open>errors\<close> the
  calls of \<^verbatim>\<open>console.error\<close>. \<open>cssReads\<close> is the browser's reading of a text that is
  given as the value of a custom property: \<open>None\<close> when the text is no declaration
  value, and otherwise the value that is stored, which is the text without the white
  space around it.
\<close>

record controller =
  currentTheme :: string
  themeLinks :: "link list"
  loads :: "themeLoad list"
  transitioning :: bool
  cssVars :: "string \<Rightarrow> string option"
  cssReads :: "string \<Rightarrow> string option"
  primaryColorPicker :: "picker option"
  secondaryColorPicker :: "picker option"
  accentColorPicker :: "picker option"
  roundnessSlider :: "string option"
  sliderValue :: "string option"
  errors :: "consoleError list"

subsection \<open>Theme switching\<close>

text \<open>The identity of a newly created element differs from every one in use.\<close>

definition freshLinkId :: "controller \<Rightarrow> nat" where
  "freshLinkId s =
     Suc (foldr max (map linkId (themeLinks s) @ map oldLink (loads s) @ map newLink (loads s)) 0)"

text \<open>
  \<^verbatim>\<open>switchTheme\<close>: \<^verbatim>\<open>getElementById\<close> finds the first element with the id; the new
  element is inserted right after it and its load begins.
\<close>

definition switchTheme :: "string \<Rightarrow> controller \<Rightarrow> controller" where
  "switchTheme newTheme s =
     (if newTheme = [] \<or> newTheme = currentTheme s then s
      else
        case themeLinks s of
          [] \<Rightarrow> s
        | currentThemeLink # others \<Rightarrow>
            (let newThemeLink =
                   \<lparr>linkId = freshLinkId s, href = ''css/style-'' @ newTheme @ ''.css''\<rparr>
             in s\<lparr>themeLinks := currentThemeLink # newThemeLink # others,
                  transitioning := True,
                  loads := loads s @
                    [\<lparr>oldLink = linkId currentThemeLink, newLink = linkId newThemeLink,
                      theme = newTheme\<rparr>]\<rparr>))"

text \<open>The \<^verbatim>\<open>onload\<close> handler of the element with identity \<open>i\<close>.\<close>

definition themeLoaded :: "nat \<Rightarrow> controller \<Rightarrow> controller" where
  "themeLoaded i s =
     (case find (\<lambda>h. newLink h = i) (loads s) of
        None \<Rightarrow> s
      | Some h \<Rightarrow>
          s\<lparr>themeLinks := filter (\<lambda>l. linkId l \<noteq> oldLink h) (themeLinks s),
            currentTheme := theme h,
            loads := filter (\<lambda>h. newLink h \<noteq> i) (loads s)\<rparr>)"

text \<open>The \<^verbatim>\<open>onerror\<close> handler of the element with identity \<open>i\<close>.\<close>

definition themeFailed :: "nat \<Rightarrow> controller \<Rightarrow> controller" where
  "themeFailed i s =
     (case find (\<lambda>h. newLink h = i) (loads s) of
        None \<Rightarrow> s
      | Some h \<Rightarrow>
          s\<lparr>errors := errors s @ [ThemeLoadFailed (theme h)],
            themeLinks := filter (\<lambda>l. linkId l \<noteq> newLink h) (themeLinks s),
            transitioning := False,
            loads := filter (\<lambda>h. newLink h \<noteq> i) (loads s)\<rparr>)"

text \<open>The timeout that \<^verbatim>\<open>onload\<close> sets removes the transition class.\<close>

definition transitionTimeout :: "controller \<Rightarrow> controller" where
  "transitionTimeout s = s\<lparr>transitioning := False\<rparr>"

subsection \<open>Colours and presets\<close>

text \<open>
  \<^verbatim>\<open>style.setProperty(variableName, value)\<close>: \<^verbatim>\<open>undefined\<close> is converted to the string
  \<^verbatim>\<open>undefined\<close>; the empty string removes the property; a text that the browser does
  not read as a declaration value leaves the property as it is; any other text sets the
  property to what the browser reads from it.
\<close>

definition updateCSSVariable :: "string \<Rightarrow> arg \<Rightarrow> controller \<Rightarrow> controller" where
  "updateCSSVariable variableName v s =
     (let text = (case v of Undefined \<Rightarrow> ''undefined'' | Str t \<Rightarrow> t)
      in if text = [] then s\<lparr>cssVars := (cssVars s)(variableName := None)\<rparr>
         else
           case cssReads s text of
             None \<Rightarrow> s
           | Some declared \<Rightarrow> s\<lparr>cssVars := (cssVars s)(variableName \<mapsto> declared)\<rparr>)"

text \<open>\<^verbatim>\<open>updateColorDisplay\<close>: \<^verbatim>\<open>color.toUpperCase()\<close> throws when \<^verbatim>\<open>color\<close> is \<^verbatim>\<open>undefined\<close>.\<close>

definition updateColorDisplay :: "picker option \<Rightarrow> arg \<Rightarrow> exn + picker option" where
  "updateColorDisplay po color =
     (case po of
        None \<Rightarrow> Inr None
      | Some p \<Rightarrow>
          (case display p of
             None \<Rightarrow> Inr (Some p)
           | Some shown \<Rightarrow>
               (case color of
                  Undefined \<Rightarrow> Inl TypeError
                | Str c \<Rightarrow> Inr (Some (p\<lparr>display := Some (toUpperCase c)\<rparr>)))))"

definition updatePrimaryColor :: "arg \<Rightarrow> controller \<Rightarrow> controller completion" where
  "updatePrimaryColor color s =
     (let s1 = updateCSSVariable ''--primary-color'' color s
      in case updateColorDisplay (primaryColorPicker s1) color of
           Inl e \<Rightarrow> Threw e s1
         | Inr p \<Rightarrow> Done (s1\<lparr>primaryColorPicker := p\<rparr>))"

definition updateSecondaryColor :: "arg \<Rightarrow> controller \<Rightarrow> controller completion" where
  "updateSecondaryColor color s =
     (let s1 = updateCSSVariable ''--secondary-color'' color s
      in case updateColorDisplay (secondaryColorPicker s1) color of
           Inl e \<Rightarrow> Threw e s1
         | Inr p \<Rightarrow> Done (s1\<lparr>secondaryColorPicker := p\<rparr>))"

definition updateAccentColor :: "arg \<Rightarrow> controller \<Rightarrow> controller completion" where
  "updateAccentColor color s =
     (let s1 = updateCSSVariable ''--accent-color'' color s
      in case updateColorDisplay (accentColorPicker s1) color of
           Inl e \<Rightarrow> Threw e s1
         | Inr p \<Rightarrow> Done (s1\<lparr>accentColorPicker := p\<rparr>))"


text \<open>
  \<^verbatim>\<open>updateDisplayValues\<close>: each display is rewritten from the value of its picker, and the
  display of the slider from the slider.
\<close>

definition refreshDisplay :: "picker option \<Rightarrow> picker option" where
  "refreshDisplay po =
     (case po of
        None \<Rightarrow> None
      | Some p \<Rightarrow>
          (case updateColorDisplay (Some p) (Str (pvalue p)) of
             Inl e \<Rightarrow> Some p
           | Inr p' \<Rightarrow> p'))"

definition updateDisplayValues :: "controller \<Rightarrow> controller" where
  "updateDisplayValues s =
     (let s1 = s\<lparr>primaryColorPicker := refreshDisplay (primaryColorPicker s),
                 secondaryColorPicker := refreshDisplay (secondaryColorPicker s),
                 accentColorPicker := refreshDisplay (accentColorPicker s)\<rparr>
      in case (roundnessSlider s1, sliderValue s1) of
           (Some v, Some shown) \<Rightarrow> s1\<lparr>sliderValue := Some (v @ ''px'')\<rparr>
         | _ \<Rightarrow> s1)"

text \<open>\<^verbatim>\<open>updateRoundedness\<close>, with the value of the slider as the event gives it.\<close>

definition updateRoundedness :: "string \<Rightarrow> controller \<Rightarrow> controller" where
  "updateRoundedness v s =
     (let roundnessValue = v @ ''px'';
          s1 = updateCSSVariable ''--border-radius-base'' (Str roundnessValue) s
      in case sliderValue s1 of
           None \<Rightarrow> s1
         | Some shown \<Rightarrow> s1\<lparr>sliderValue := Some roundnessValue\<rparr>)"

record preset =
  primary :: string
  secondary :: string
  accent :: string

definition presets :: "(string \<times> preset) list" where
  "presets =
     [(''coffee'', \<lparr>primary = ''#8B4513'', secondary = ''#D2691E'', accent = ''#F4E4C1''\<rparr>),
      (''modern'', \<lparr>primary = ''#3B82F6'', secondary = ''#10B981'', accent = ''#F3F4F6''\<rparr>),
      (''earthy'', \<lparr>primary = ''#059669'', secondary = ''#84CC16'', accent = ''#ECFDF5''\<rparr>),
      (''luxe'', \<lparr>primary = ''#D97706'', secondary = ''#F59E0B'', accent = ''#FEF3C7''\<rparr>)]"

text \<open>\<^verbatim>\<open>picker.value = v\<close> under the guard \<^verbatim>\<open>if (picker)\<close>.\<close>

definition setPickerValue :: "arg \<Rightarrow> picker option \<Rightarrow> picker option" where
  "setPickerValue v po =
     map_option
       (\<lambda>p. p\<lparr>pvalue := sanitizeColor (case v of Undefined \<Rightarrow> ''undefined'' | Str t \<Rightarrow> t)\<rparr>)
       po"

text \<open>
  \<^verbatim>\<open>applyPreset\<close>. The guard \<^verbatim>\<open>if (!preset)\<close> lets an inherited member pass, whose
  properties \<^verbatim>\<open>primary\<close>, \<^verbatim>\<open>secondary\<close> and \<^verbatim>\<open>accent\<close> are \<^verbatim>\<open>undefined\<close>.
\<close>

definition applyPreset :: "string \<Rightarrow> controller \<Rightarrow> controller completion" where
  "applyPreset presetName s =
     (case getProperty presets presetName of
        Absent \<Rightarrow> Done (s\<lparr>errors := errors s @ [UnknownPreset presetName]\<rparr>)
      | found \<Rightarrow>
          (let p = (case found of Own ps \<Rightarrow> Str (primary ps) | _ \<Rightarrow> Undefined);
               q = (case found of Own ps \<Rightarrow> Str (secondary ps) | _ \<Rightarrow> Undefined);
               a = (case found of Own ps \<Rightarrow> Str (accent ps) | _ \<Rightarrow> Undefined)
           in andThen (andThen (andThen (updatePrimaryColor p s)
                 (updateSecondaryColor q))
                 (updateAccentColor a))
                 (\<lambda>s3. Done (updateDisplayValues
                    (s3\<lparr>primaryColorPicker := setPickerValue p (primaryColorPicker s3),
                        secondaryColorPicker := setPickerValue q (secondaryColorPicker s3),
                        accentColorPicker := setPickerValue a (accentColorPicker s3)\<rparr>)))))"

subsection \<open>What runs between a call of \<^verbatim>\<open>switchTheme\<close> and the end of its load\<close>

text \<open>
  The methods of the controller other than \<^verbatim>\<open>switchTheme\<close>, and the timeout of a
  finished transition. A method that throws leaves the changes it has made.
\<close>

text \<open>What the theme handlers read and write besides the console.\<close>

definition themePart :: "controller \<Rightarrow> link list \<times> themeLoad list \<times> string" where
  "themePart s = (themeLinks s, loads s, currentTheme s)"

datatype action =
    SetPrimaryColor arg
  | SetSecondaryColor arg
  | SetAccentColor arg
  | SetRoundedness string
  | ApplyPreset string
  | RefreshDisplays
  | TransitionEnds

fun perform :: "controller \<Rightarrow> action \<Rightarrow> controller" where
  "perform s (SetPrimaryColor v) = stateOf (updatePrimaryColor v s)"
| "perform s (SetSecondaryColor v) = stateOf (updateSecondaryColor v s)"
| "perform s (SetAccentColor v) = stateOf (updateAccentColor v s)"
| "perform s (SetRoundedness v) = updateRoundedness v s"
| "perform s (ApplyPreset presetName) = stateOf (applyPreset presetName s)"
| "perform s RefreshDisplays = updateDisplayValues s"
| "perform s TransitionEnds = transitionTimeout s"

section \<open>Example states\<close>

definition control :: "string \<Rightarrow> string \<Rightarrow> string \<Rightarrow> bool \<Rightarrow> string \<Rightarrow> field" where
  "control tag type ident req v =
     \<lparr>fvalue = v, defaultValue = [], required = req, ftype = type, tagName = tag,
      fid = ident, errorClass = False, groupErrors = Some []\<rparr>"

text \<open>A page whose visitor has filled in every control and picked a radio button.\<close>

definition filledForm :: handler where
  "filledForm =
     \<lparr>f_name = Some (control ''INPUT'' ''text'' ''name'' True ''Ada Lovelace''),
      f_email = Some (control ''INPUT'' ''email'' ''email'' True ''ada@example.com''),
      f_zip = Some (control ''INPUT'' ''text'' ''zip'' True ''12345''),
      f_interest = Some (control ''SELECT'' ''select-one'' ''interest'' True ''training''),
      f_espressoMachine = Some (control ''INPUT'' ''radio'' ''machine-yes'' False ''yes''),
      f_comments = Some (control ''TEXTAREA'' ''textarea'' ''comments'' False []),
      checkedRadio = Some ''yes'',
      defaultRadio = None,
      generalError = None,
      isSubmitting = False,
      submitBtn = Some \<lparr>disabled = False, innerHTML = Html ''Join the Waitlist''\<rparr>,
      originalButtonText = Html ''Join the Waitlist'',
      inFlight = None,
      requests = [],
      stored = NoItem,
      storageFault = NoFault,
      successOverlays = 0\<rparr>"

text \<open>The white space of CSS: TAB, LF, FF, CR and SP.\<close>

definition cssSpace :: "char \<Rightarrow> bool" where
  "cssSpace c \<longleftrightarrow> c \<in> set [CHR 0x09, CHR 0x0A, CHR 0x0C, CHR 0x0D, CHR 0x20]"

definition cssStrip :: "string \<Rightarrow> string" where
  "cssStrip t = rev (dropWhile cssSpace (rev (dropWhile cssSpace t)))"

text \<open>
  The page as it is loaded: the classic stylesheet and three colour pickers. The texts
  given to this page below are declaration values, which are stored without the white
  space around them.
\<close>

definition loadedPage :: controller where
  "loadedPage =
     \<lparr>currentTheme = ''classic'',
      themeLinks = [\<lparr>linkId = 0, href = ''css/style-classic.css''\<rparr>],
      loads = [],
      transitioning = False,
      cssVars = Map.empty,
      cssReads = (\<lambda>t. Some (cssStrip t)),
      primaryColorPicker = Some \<lparr>pvalue = ''#8b4513'', display = Some (units ''#8B4513'')\<rparr>,
      secondaryColorPicker = Some \<lparr>pvalue = ''#d2691e'', display = Some (units ''#D2691E'')\<rparr>,
      accentColorPicker = Some \<lparr>pvalue = ''#f4e4c1'', display = Some (units ''#F4E4C1'')\<rparr>,
      roundnessSlider = Some ''8'',
      sliderValue = Some ''8px'',
      errors = []\<rparr>"

section \<open>Properties\<close>

subsection \<open>What the two patterns accept\<close>

lemma repeated_Cons:
  "c # w \<in> repeated A \<longleftrightarrow> (\<exists>u v. w = u @ v \<and> c # u \<in> A \<and> v \<in> repeated A)"
proof
  assume "c # w \<in> repeated A"
  then show "\<exists>u v. w = u @ v \<and> c # u \<in> A \<and> v \<in> repeated A"
  proof (induction "c # w" rule: repeated.induct)
    case (more u v)
    show ?case
    proof (cases u)
      case Nil
      with more show ?thesis by simp
    next
      case (Cons a u')
      with more have "w = u' @ v" "c # u' \<in> A" by auto
      with more.hyps(2) show ?thesis by blast
    qed
  qed
next
  assume "\<exists>u v. w = u @ v \<and> c # u \<in> A \<and> v \<in> repeated A"
  then obtain u v where "w = u @ v" "c # u \<in> A" "v \<in> repeated A" by blast
  then have "(c # u) @ v \<in> repeated A" by (intro repeated.more)
  with \<open>w = u @ v\<close> show "c # w \<in> repeated A" by simp
qed

lemma nullable_lang: "nullable r \<longleftrightarrow> [] \<in> lang r"
  by (induction r) (auto intro: repeated.none)

lemma lang_after: "w \<in> lang (after c r) \<longleftrightarrow> c # w \<in> lang r"
proof (induction r arbitrary: w)
  case (Cat r s)
  show ?case
  proof
    assume "w \<in> lang (after c (Cat r s))"
    then show "c # w \<in> lang (Cat r s)"
      using Cat by (auto simp: nullable_lang split: if_splits) (metis append_Cons append_Nil)+
  next
    assume "c # w \<in> lang (Cat r s)"
    then obtain u v where uv: "c # w = u @ v" "u \<in> lang r" "v \<in> lang s" by auto
    show "w \<in> lang (after c (Cat r s))"
    proof (cases u)
      case Nil
      with uv Cat show ?thesis by (auto simp: nullable_lang)
    next
      case (Cons a u')
      with uv Cat have "w = u' @ v" "u' \<in> lang (after c r)" by auto
      with uv show ?thesis by auto
    qed
  qed
next
  case (Star r)
  then show ?case by (auto simp: repeated_Cons)
qed auto

lemma test_lang: "test r s \<longleftrightarrow> s \<in> lang r"
  by (induction s arbitrary: r) (simp_all add: nullable_lang lang_after)

lemma repeated_class:
  "w \<in> repeated (lang (Chr k)) \<longleftrightarrow> (\<forall>c \<in> set w. inClass k c)"
proof
  assume "w \<in> repeated (lang (Chr k))"
  then show "\<forall>c \<in> set w. inClass k c"
    by (induction rule: repeated.induct) auto
next
  assume "\<forall>c \<in> set w. inClass k c"
  then show "w \<in> repeated (lang (Chr k))"
  proof (induction w)
    case Nil
    show ?case by (rule repeated.none)
  next
    case (Cons a w)
    then have "[a] \<in> lang (Chr k)" "w \<in> repeated (lang (Chr k))" by auto
    then have "[a] @ w \<in> repeated (lang (Chr k))" by (rule repeated.more)
    then show ?case by simp
  qed
qed

lemma lang_Cat_iff:
  "w \<in> lang (Cat r s) \<longleftrightarrow> (\<exists>u v. w = u @ v \<and> u \<in> lang r \<and> v \<in> lang s)"
  by auto

lemma lang_Literal_iff: "w \<in> lang (Chr (Literal a)) \<longleftrightarrow> w = [a]"
  by auto

lemma Cons_in_Cat_class:
  "a # v \<in> lang (Cat (Chr k) s) \<longleftrightarrow> inClass k a \<and> v \<in> lang s"
proof
  assume "a # v \<in> lang (Cat (Chr k) s)"
  then show "inClass k a \<and> v \<in> lang s" by auto
next
  assume "inClass k a \<and> v \<in> lang s"
  then have "a # v = [a] @ v \<and> [a] \<in> lang (Chr k) \<and> v \<in> lang s" by simp
  then show "a # v \<in> lang (Cat (Chr k) s)" unfolding lang_Cat_iff by blast
qed

lemma Nil_in_Cat_class: "[] \<notin> lang (Cat (Chr k) s)"
  by auto

lemma lang_OneOrMore_class:
  "w \<in> lang (OneOrMore (Chr k)) \<longleftrightarrow> w \<noteq> [] \<and> (\<forall>c \<in> set w. inClass k c)"
proof (cases w)
  case Nil
  then show ?thesis unfolding OneOrMore_def by (simp add: Nil_in_Cat_class del: lang.simps)
next
  case (Cons a v)
  have "v \<in> lang (Star (Chr k)) \<longleftrightarrow> (\<forall>c \<in> set v. inClass k c)"
    using repeated_class [of v k] by simp
  with Cons show ?thesis
    unfolding OneOrMore_def by (simp add: Cons_in_Cat_class del: lang.simps)
qed

lemma lang_plain: "w \<in> lang (OneOrMore (Chr NotSpaceOrAt)) \<longleftrightarrow> plainPart w"
  by (simp add: lang_OneOrMore_class plainPart_def)

lemma isValidEmail_iff: "isValidEmail s \<longleftrightarrow> localAtDomainTld s"
proof -
  have "isValidEmail s \<longleftrightarrow>
        (\<exists>l r1. s = l @ r1 \<and> plainPart l \<and>
          (\<exists>a r2. r1 = a @ r2 \<and> a = ''@'' \<and>
            (\<exists>d r3. r2 = d @ r3 \<and> plainPart d \<and>
              (\<exists>b t. r3 = b @ t \<and> b = ''.'' \<and> plainPart t))))"
    unfolding isValidEmail_def test_lang emailRegex_def lang_Cat_iff lang_Literal_iff lang_plain ..
  also have "\<dots> \<longleftrightarrow> localAtDomainTld s"
    unfolding localAtDomainTld_def by blast
  finally show ?thesis .
qed

lemma lang_Times_class:
  "w \<in> lang (Times n (Chr k)) \<longleftrightarrow> length w = n \<and> (\<forall>c \<in> set w. inClass k c)"
proof (induction n arbitrary: w)
  case 0
  show ?case by auto
next
  case (Suc n)
  show ?case
  proof (cases w)
    case Nil
    then show ?thesis by (simp add: Nil_in_Cat_class del: lang.simps)
  next
    case (Cons a v)
    with Suc show ?thesis by (auto simp: Cons_in_Cat_class simp del: lang.simps)
  qed
qed

lemma isValidZipCode_iff: "isValidZipCode s \<longleftrightarrow> fiveDigits s"
  by (simp add: isValidZipCode_def test_lang zipRegex_def lang_Times_class fiveDigits_def)

subsection \<open>Field and form validation\<close>

lemma visitField_eq:
  "visitField fo b = (b \<and> fst (validateField fo), snd (validateField fo))"
  by (cases fo) (auto simp: visitField_def split: prod.splits)

lemma validateForm_valid:
  "fst (validateForm s) \<longleftrightarrow>
     fst (validateField (f_name s)) \<and> fst (validateField (f_email s)) \<and>
     fst (validateField (f_zip s)) \<and> fst (validateField (f_interest s)) \<and>
     fst (validateField (f_espressoMachine s)) \<and> fst (validateField (f_comments s)) \<and>
     checkedRadio s \<noteq> None"
  by (auto simp: validateForm_def visitField_eq case_prod_beta Let_def split: option.splits)

lemma validateForm_keeps:
  "requests (snd (validateForm s)) = requests s"
  "stored (snd (validateForm s)) = stored s"
  "storageFault (snd (validateForm s)) = storageFault s"
  "inFlight (snd (validateForm s)) = inFlight s"
  "isSubmitting (snd (validateForm s)) = isSubmitting s"
  "successOverlays (snd (validateForm s)) = successOverlays s"
  "checkedRadio (snd (validateForm s)) = checkedRadio s"
  by (simp_all add: validateForm_def visitField_eq case_prod_beta Let_def showGeneralError_def
        split: option.splits)

lemma clearAllErrors_keeps:
  "requests (clearAllErrors s) = requests s"
  "stored (clearAllErrors s) = stored s"
  "storageFault (clearAllErrors s) = storageFault s"
  "inFlight (clearAllErrors s) = inFlight s"
  "isSubmitting (clearAllErrors s) = isSubmitting s"
  "successOverlays (clearAllErrors s) = successOverlays s"
  "checkedRadio (clearAllErrors s) = checkedRadio s"
  by (simp_all add: clearAllErrors_def)

lemma setSubmittingState_keeps:
  "requests (setSubmittingState b s) = requests s"
  "stored (setSubmittingState b s) = stored s"
  "storageFault (setSubmittingState b s) = storageFault s"
  "inFlight (setSubmittingState b s) = inFlight s"
  "isSubmitting (setSubmittingState b s) = b"
  "successOverlays (setSubmittingState b s) = successOverlays s"
  by (simp_all add: setSubmittingState_def Let_def split: option.splits)

text \<open>
  C5. \<^verbatim>\<open>validateField\<close> returns invalid exactly when one of the four rules is violated
  on the trimmed value: a required field is empty; the value of a field of type
  \<^verbatim>\<open>email\<close> is not empty and has not the shape local@domain.tld; the value of the text
  field \<^verbatim>\<open>zip\<close> is not empty and is not five digits; the value of the text field
  \<^verbatim>\<open>name\<close> is not empty and shorter than two characters. A required field that is empty
  is shown the message \<^verbatim>\<open>This field is required\<close>.
\<close>

theorem validateField_rules:
  "(let v = trim (fvalue f) in
      (fst (validateField (Some f)) \<longleftrightarrow>
         \<not> (required f \<and> v = []) \<and>
         \<not> (fieldKind f = ''email'' \<and> v \<noteq> [] \<and> \<not> localAtDomainTld v) \<and>
         \<not> (fieldKind f = ''text'' \<and> fid f = ''zip'' \<and> v \<noteq> [] \<and> \<not> fiveDigits v) \<and>
         \<not> (fieldKind f = ''text'' \<and> fid f = ''name'' \<and> v \<noteq> [] \<and> length v < 2)) \<and>
      (required f \<and> v = [] \<longrightarrow>
         validateField (Some f) = (False, Some (showFieldError f ''This field is required''))))"
  by (auto simp: validateField_verdict_def Let_def isValidEmail_iff isValidZipCode_iff)

theorem validateField_rules_witness:
  "\<not> fst (validateField (Some (control ''INPUT'' ''text'' ''zip'' True ''1234''))) \<and>
   fst (validateField (Some (control ''INPUT'' ''text'' ''zip'' True ''12345''))) \<and>
   validateField (Some (control ''INPUT'' ''text'' ''name'' True ''  '')) =
     (False, Some (showFieldError (control ''INPUT'' ''text'' ''name'' True ''  '')
                     ''This field is required''))"
  using validateField_rules [of "control ''INPUT'' ''text'' ''zip'' True ''1234''"]
        validateField_rules [of "control ''INPUT'' ''text'' ''zip'' True ''12345''"]
        validateField_rules [of "control ''INPUT'' ''text'' ''name'' True ''  ''"]
  by (simp add: control_def trim_def isWhiteSpace_def fieldKind_def fiveDigits_def isDigit_def
        Let_def)

text \<open>
  C10. \<^verbatim>\<open>validateField\<close> on an absent field returns \<^verbatim>\<open>true\<close> and marks nothing, and a
  round of the loop of \<^verbatim>\<open>validateForm\<close> on an absent field changes neither the verdict
  nor the field. While \<^verbatim>\<open>fields.espressoMachine\<close> is \<^verbatim>\<open>null\<close>, the form is valid exactly
  when the other five fields are and a radio button is checked, and the field stays
  \<^verbatim>\<open>null\<close>.
\<close>

theorem validateField_absent:
  "validateField None = (True, None) \<and>
   visitField None b = (b, None) \<and>
   (f_espressoMachine s = None \<longrightarrow>
      (fst (validateForm s) \<longleftrightarrow>
         fst (validateField (f_name s)) \<and> fst (validateField (f_email s)) \<and>
         fst (validateField (f_zip s)) \<and> fst (validateField (f_interest s)) \<and>
         fst (validateField (f_comments s)) \<and> checkedRadio s \<noteq> None) \<and>
      f_espressoMachine (snd (validateForm s)) = None)"
proof -
  have "f_espressoMachine (snd (validateForm s)) = snd (validateField (f_espressoMachine s))"
    by (simp add: validateForm_def visitField_eq case_prod_beta Let_def showGeneralError_def
          split: option.splits)
  then show ?thesis
    by (auto simp: validateForm_valid visitField_def)
qed

theorem validateField_absent_witness:
  "f_espressoMachine (filledForm\<lparr>f_espressoMachine := None, checkedRadio := None\<rparr>) = None \<and>
   \<not> fst (validateForm (filledForm\<lparr>f_espressoMachine := None, checkedRadio := None\<rparr>)) \<and>
   f_espressoMachine
     (snd (validateForm (filledForm\<lparr>f_espressoMachine := None, checkedRadio := None\<rparr>))) = None"
  using validateField_absent
          [of True "filledForm\<lparr>f_espressoMachine := None, checkedRadio := None\<rparr>"]
  by simp

subsection \<open>Submitting the form\<close>

lemma handleSubmit_started:
  assumes "\<not> isSubmitting s" and "fst (validateForm (clearAllErrors s))"
  shows "isSubmitting (handleSubmit now s)"
    and "inFlight (handleSubmit now s) = Some (submission now s)"
    and "requests (handleSubmit now s) = requests s @ [googleFormData (submission now s)]"
    and "stored (handleSubmit now s) = stored s"
    and "storageFault (handleSubmit now s) = storageFault s"
  using assms
  by (simp_all add: handleSubmit_def submission_def submitToGoogleForms_begin_def Let_def
        case_prod_beta setSubmittingState_keeps validateForm_keeps clearAllErrors_keeps)

lemma storeFormDataLocally_keeps:
  "requests (storeFormDataLocally d s) = requests s"
  "inFlight (storeFormDataLocally d s) = inFlight s"
  "isSubmitting (storeFormDataLocally d s) = isSubmitting s"
  "storageFault (storeFormDataLocally d s) = storageFault s"
  by (auto simp: storeFormDataLocally_def storeFormDataLocally_try_def
        split: stored.splits json.splits)

lemma storeFormDataLocally_appends:
  "canAppend s \<Longrightarrow>
   stored (storeFormDataLocally d s) = Wellformed (JArray (logEntries (stored s) @ [toJson d]))"
  by (auto simp: canAppend_def storeFormDataLocally_def storeFormDataLocally_try_def
        logEntries_def split: stored.splits json.splits)

lemma storeFormDataLocally_try_fails:
  "\<not> canAppend s \<Longrightarrow> isl (storeFormDataLocally_try d s)"
  by (cases "storageFault s")
     (simp_all add: canAppend_def storeFormDataLocally_try_def split: stored.splits json.splits)

lemma storeFormDataLocally_swallows:
  "\<not> canAppend s \<Longrightarrow> storeFormDataLocally d s = s"
  using storeFormDataLocally_try_fails [of s d]
  by (cases "storeFormDataLocally_try d s") (simp_all add: storeFormDataLocally_def)

lemma stored_after_resume:
  "inFlight s = Some d \<Longrightarrow>
   stored (handleSubmit_resume out s) = stored (storeFormDataLocally d (s\<lparr>inFlight := None\<rparr>))"
  by (cases out)
     (simp_all add: handleSubmit_resume_def submitToGoogleForms_end_def
        setSubmittingState_keeps resetForm_def clearAllErrors_keeps showSuccessMessage_def
        showSubmissionError_def showGeneralError_def)

lemma idle_after_resume:
  "inFlight s = Some d \<Longrightarrow>
   \<not> isSubmitting (handleSubmit_resume out s) \<and> inFlight (handleSubmit_resume out s) = None \<and>
   requests (handleSubmit_resume out s) = requests s"
  by (cases out)
     (simp_all add: handleSubmit_resume_def submitToGoogleForms_end_def
        setSubmittingState_keeps resetForm_def clearAllErrors_keeps showSuccessMessage_def
        showSubmissionError_def showGeneralError_def storeFormDataLocally_keeps)

text \<open>On every page that the two events lead to, the busy flag is set exactly while a call is suspended.\<close>

lemma busy_while_in_flight:
  assumes "isSubmitting s \<longleftrightarrow> inFlight s \<noteq> None"
  shows "isSubmitting (react s e) \<longleftrightarrow> inFlight (react s e) \<noteq> None"
proof (cases e)
  case (SubmitEvent now)
  show ?thesis
  proof (cases "isSubmitting s")
    case True
    with assms SubmitEvent show ?thesis by (simp add: handleSubmit_def)
  next
    case idle: False
    show ?thesis
    proof (cases "fst (validateForm (clearAllErrors s))")
      case True
      with idle SubmitEvent show ?thesis by (simp add: handleSubmit_started)
    next
      case False
      with idle assms SubmitEvent show ?thesis
        by (simp add: handleSubmit_def case_prod_beta showGeneralError_def validateForm_keeps
              clearAllErrors_keeps)
    qed
  qed
next
  case (FetchSettled out)
  show ?thesis
  proof (cases "inFlight s")
    case None
    with assms FetchSettled show ?thesis by (simp add: handleSubmit_resume_def)
  next
    case (Some d)
    with FetchSettled show ?thesis using idle_after_resume [of s d out] by simp
  qed
qed

lemma busy_while_in_flight_run:
  "(isSubmitting s \<longleftrightarrow> inFlight s \<noteq> None) \<Longrightarrow>
   (isSubmitting (foldl react s es) \<longleftrightarrow> inFlight (foldl react s es) \<noteq> None)"
  by (induction es arbitrary: s) (simp_all add: busy_while_in_flight)

text \<open>
  C2. When \<^verbatim>\<open>validateForm\<close> rejects the form, \<^verbatim>\<open>handleSubmit\<close> shows the aggregate error
  and returns: no request is handed to \<^verbatim>\<open>fetch\<close>, the storage is as before, the handler
  is not busy and no call is left suspended, so that nothing is appended later either.
\<close>

theorem handleSubmit_invalid:
  assumes "\<not> isSubmitting s" and "\<not> fst (validateForm (clearAllErrors s))"
  shows "generalError (handleSubmit now s) = Some ''Please fix the errors above and try again'' \<and>
         requests (handleSubmit now s) = requests s \<and>
         stored (handleSubmit now s) = stored s \<and>
         inFlight (handleSubmit now s) = inFlight s \<and>
         \<not> isSubmitting (handleSubmit now s) \<and>
         successOverlays (handleSubmit now s) = successOverlays s \<and>
         (inFlight s = None \<longrightarrow>
            handleSubmit_resume out (handleSubmit now s) = handleSubmit now s)"
  using assms
  by (simp add: handleSubmit_def case_prod_beta showGeneralError_def validateForm_keeps
        clearAllErrors_keeps handleSubmit_resume_def)

theorem handleSubmit_invalid_witness:
  "\<not> isSubmitting (filledForm\<lparr>f_name := Some (control ''INPUT'' ''text'' ''name'' True [])\<rparr>) \<and>
   \<not> fst (validateForm (clearAllErrors
          (filledForm\<lparr>f_name := Some (control ''INPUT'' ''text'' ''name'' True [])\<rparr>))) \<and>
   generalError (handleSubmit ''2026-01-01T09:00:00.000Z''
       (filledForm\<lparr>f_name := Some (control ''INPUT'' ''text'' ''name'' True [])\<rparr>))
     = Some ''Please fix the errors above and try again'' \<and>
   requests (handleSubmit ''2026-01-01T09:00:00.000Z''
       (filledForm\<lparr>f_name := Some (control ''INPUT'' ''text'' ''name'' True [])\<rparr>)) = [] \<and>
   stored (handleSubmit ''2026-01-01T09:00:00.000Z''
       (filledForm\<lparr>f_name := Some (control ''INPUT'' ''text'' ''name'' True [])\<rparr>)) = NoItem"
proof -
  let ?s = "filledForm\<lparr>f_name := Some (control ''INPUT'' ''text'' ''name'' True [])\<rparr>"
  have idle: "\<not> isSubmitting ?s" by (simp add: filledForm_def)
  have bad: "\<not> fst (validateForm (clearAllErrors ?s))"
    by (simp add: validateForm_valid clearAllErrors_def clearControl_def control_def
          validateField_verdict_def trim_def fieldKind_def Let_def)
  from handleSubmit_invalid [OF idle bad, of "''2026-01-01T09:00:00.000Z''" Resolved] idle bad
  show ?thesis by (simp add: filledForm_def)
qed

text \<open>
  C3. While the handler is busy, a submit event is ignored: the page stays as it is, so
  no second request is made, nothing is written to the storage, and when the pending
  request settles the outcome is that of the first submission alone.
\<close>

theorem handleSubmit_single_flight:
  "isSubmitting s \<Longrightarrow>
   handleSubmit now s = s \<and>
   requests (handleSubmit now s) = requests s \<and>
   stored (handleSubmit now s) = stored s \<and>
   handleSubmit_resume out (handleSubmit now s) = handleSubmit_resume out s"
  by (simp add: handleSubmit_def)

theorem handleSubmit_single_flight_witness:
  "isSubmitting (handleSubmit ''2026-01-01T09:00:00.000Z'' filledForm) \<and>
   handleSubmit ''2026-01-01T09:00:01.000Z'' (handleSubmit ''2026-01-01T09:00:00.000Z'' filledForm)
     = handleSubmit ''2026-01-01T09:00:00.000Z'' filledForm \<and>
   length (requests (handleSubmit ''2026-01-01T09:00:01.000Z''
             (handleSubmit ''2026-01-01T09:00:00.000Z'' filledForm))) = 1 \<and>
   length (logEntries (stored (handleSubmit_resume Resolved
             (handleSubmit ''2026-01-01T09:00:01.000Z''
               (handleSubmit ''2026-01-01T09:00:00.000Z'' filledForm))))) = 1"
proof -
  let ?s1 = "handleSubmit ''2026-01-01T09:00:00.000Z'' filledForm"
  have idle: "\<not> isSubmitting filledForm" by (simp add: filledForm_def)
  have good: "fst (validateForm (clearAllErrors filledForm))" by code_simp
  have busy: "isSubmitting ?s1" using idle good by (simp add: handleSubmit_started)
  have one: "length (requests ?s1) = 1"
    using idle good by (simp add: handleSubmit_started) (simp add: filledForm_def)
  have "canAppend (?s1\<lparr>inFlight := None\<rparr>)"
    using idle good by (simp add: canAppend_def handleSubmit_started) (simp add: filledForm_def)
  then have log: "length (logEntries (stored (handleSubmit_resume Resolved ?s1))) = 1"
    using idle good
    by (simp add: stored_after_resume [of _ "submission ''2026-01-01T09:00:00.000Z'' filledForm"]
          handleSubmit_started storeFormDataLocally_appends logEntries_def)
       (simp add: filledForm_def)
  from handleSubmit_single_flight [OF busy, of "''2026-01-01T09:00:01.000Z''" Resolved] busy one log
  show ?thesis by simp
qed

lemma canAppend_cong:
  "stored a = stored b \<Longrightarrow> storageFault a = storageFault b \<Longrightarrow> canAppend a = canAppend b"
  by (simp add: canAppend_def)

lemma stored_after_store:
  "stored (storeFormDataLocally d s) =
     (if canAppend s then Wellformed (JArray (logEntries (stored s) @ [toJson d])) else stored s)"
  by (simp add: storeFormDataLocally_appends storeFormDataLocally_swallows)

text \<open>
  C1, as the code has it. For a form that passes validation, \<^verbatim>\<open>storeFormDataLocally\<close> is
  run with the collected submission on both paths of \<^verbatim>\<open>submitToGoogleForms\<close>, and on the
  failing path before the error is thrown on to \<^verbatim>\<open>handleSubmit\<close>. When the request has
  settled, the log holds the earlier entries followed by the submission if the storage
  can be read and written and held no item, an empty text or an array; otherwise the
  failure of the write is caught in \<^verbatim>\<open>storeFormDataLocally\<close> and the storage is as it was.
\<close>

theorem fallback_append_attempted:
  assumes "\<not> isSubmitting s" and "fst (validateForm (clearAllErrors s))"
  shows "inFlight (handleSubmit now s) = Some (submission now s) \<and>
         submitToGoogleForms_end Resolved d s' = (Inr True, storeFormDataLocally d s') \<and>
         submitToGoogleForms_end (Rejected e) d s' = (Inl e, storeFormDataLocally d s') \<and>
         stored (handleSubmit_resume out (handleSubmit now s)) =
           (if canAppend s
            then Wellformed (JArray (logEntries (stored s) @ [toJson (submission now s)]))
            else stored s)"
proof -
  let ?s1 = "handleSubmit now s"
  have flight: "inFlight ?s1 = Some (submission now s)"
    using assms by (rule handleSubmit_started)
  have same: "stored (?s1\<lparr>inFlight := None\<rparr>) = stored s"
             "storageFault (?s1\<lparr>inFlight := None\<rparr>) = storageFault s"
    using assms by (simp_all add: handleSubmit_started)
  have "stored (handleSubmit_resume out ?s1) =
        stored (storeFormDataLocally (submission now s) (?s1\<lparr>inFlight := None\<rparr>))"
    using flight by (rule stored_after_resume)
  also have "\<dots> = (if canAppend s
            then Wellformed (JArray (logEntries (stored s) @ [toJson (submission now s)]))
            else stored s)"
    unfolding stored_after_store using same canAppend_cong [OF same] by simp
  finally show ?thesis
    using flight by (simp add: submitToGoogleForms_end_def)
qed

theorem fallback_append_attempted_witness:
  "\<not> isSubmitting filledForm \<and> fst (validateForm (clearAllErrors filledForm)) \<and>
   canAppend filledForm \<and>
   stored (handleSubmit_resume (Rejected NetworkError)
            (handleSubmit ''2026-01-01T09:00:00.000Z'' filledForm)) =
     Wellformed (JArray [toJson (submission ''2026-01-01T09:00:00.000Z'' filledForm)])"
proof -
  have idle: "\<not> isSubmitting filledForm" by (simp add: filledForm_def)
  have good: "fst (validateForm (clearAllErrors filledForm))" by code_simp
  have can: "canAppend filledForm" by (simp add: canAppend_def filledForm_def)
  have empty: "logEntries (stored filledForm) = []" by (simp add: logEntries_def filledForm_def)
  from fallback_append_attempted [OF idle good, of "''2026-01-01T09:00:00.000Z''" _ _ _ "Rejected NetworkError"]
       idle good can empty
  show ?thesis by simp
qed

text \<open>
  C1, as the claim states it, fails on a page whose storage cannot be written (its quota
  is used up): the form passes validation and on either path the log stays empty.
\<close>

theorem fallback_append_counterexample:
  "\<not> isSubmitting (filledForm\<lparr>storageFault := WriteFails\<rparr>) \<and>
   fst (validateForm (clearAllErrors (filledForm\<lparr>storageFault := WriteFails\<rparr>))) \<and>
   logEntries (stored (handleSubmit_resume Resolved
       (handleSubmit ''2026-01-01T09:00:00.000Z'' (filledForm\<lparr>storageFault := WriteFails\<rparr>)))) = [] \<and>
   logEntries (stored (handleSubmit_resume (Rejected NetworkError)
       (handleSubmit ''2026-01-01T09:00:00.000Z'' (filledForm\<lparr>storageFault := WriteFails\<rparr>)))) = []"
  by code_simp

text \<open>
  C4, as the code has it. \<^verbatim>\<open>storeFormDataLocally\<close> never drops an entry: the entries after
  the call are those before it, possibly followed by more. With a storage that can be
  read and written, a missing or empty item is taken as the empty sequence and the
  submission becomes the only entry, and an array gets the submission as its last
  entry. A text that \<^verbatim>\<open>JSON.parse\<close> rejects makes the \<^verbatim>\<open>try\<close> block fail; the error is
  caught, the storage is left as it is and the submission is not stored; the same holds
  whenever the storage cannot take the append.
\<close>

theorem storeFormDataLocally_log:
  "(\<exists>added. logEntries (stored (storeFormDataLocally d s)) = logEntries (stored s) @ added) \<and>
   (storageFault s = NoFault \<and> (stored s = NoItem \<or> stored s = EmptyText) \<longrightarrow>
      stored (storeFormDataLocally d s) = Wellformed (JArray [toJson d])) \<and>
   (storageFault s = NoFault \<and> stored s = Wellformed (JArray entries) \<longrightarrow>
      stored (storeFormDataLocally d s) = Wellformed (JArray (entries @ [toJson d]))) \<and>
   (stored s = Malformed \<longrightarrow>
      isl (storeFormDataLocally_try d s) \<and> storeFormDataLocally d s = s) \<and>
   (\<not> canAppend s \<longrightarrow> storeFormDataLocally d s = s)"
proof -
  have grows: "\<exists>added. logEntries (stored (storeFormDataLocally d s)) = logEntries (stored s) @ added"
    by (simp add: stored_after_store logEntries_def)
  have missing: "storageFault s = NoFault \<and> (stored s = NoItem \<or> stored s = EmptyText) \<longrightarrow>
      stored (storeFormDataLocally d s) = Wellformed (JArray [toJson d])"
    by (auto simp: stored_after_store canAppend_def logEntries_def)
  have array: "storageFault s = NoFault \<and> stored s = Wellformed (JArray entries) \<longrightarrow>
      stored (storeFormDataLocally d s) = Wellformed (JArray (entries @ [toJson d]))"
    by (auto simp: stored_after_store canAppend_def logEntries_def)
  have corrupt: "stored s = Malformed \<longrightarrow>
      isl (storeFormDataLocally_try d s) \<and> storeFormDataLocally d s = s"
    by (simp add: storeFormDataLocally_try_fails storeFormDataLocally_swallows canAppend_def)
  from grows missing array corrupt show ?thesis
    by (simp add: storeFormDataLocally_swallows)
qed

theorem storeFormDataLocally_log_witness:
  "stored (storeFormDataLocally (submission ''2026-01-01T09:00:00.000Z'' filledForm) filledForm) =
     Wellformed (JArray [toJson (submission ''2026-01-01T09:00:00.000Z'' filledForm)]) \<and>
   stored (storeFormDataLocally (submission ''2026-01-01T09:05:00.000Z'' filledForm)
      (filledForm\<lparr>stored := Wellformed (JArray [JString ''earlier''])\<rparr>)) =
     Wellformed (JArray [JString ''earlier'',
        toJson (submission ''2026-01-01T09:05:00.000Z'' filledForm)]) \<and>
   storeFormDataLocally (submission ''2026-01-01T09:00:00.000Z'' filledForm)
      (filledForm\<lparr>stored := Malformed\<rparr>) = filledForm\<lparr>stored := Malformed\<rparr> \<and>
   \<not> canAppend (filledForm\<lparr>storageFault := WriteFails\<rparr>) \<and>
   stored (storeFormDataLocally (submission ''2026-01-01T09:00:00.000Z'' filledForm)
      (filledForm\<lparr>storageFault := WriteFails\<rparr>)) = NoItem"
  using storeFormDataLocally_log [of "submission ''2026-01-01T09:00:00.000Z'' filledForm" filledForm]
        storeFormDataLocally_log [of "submission ''2026-01-01T09:05:00.000Z'' filledForm"
          "filledForm\<lparr>stored := Wellformed (JArray [JString ''earlier''])\<rparr>" "[JString ''earlier'']"]
        storeFormDataLocally_log [of "submission ''2026-01-01T09:00:00.000Z'' filledForm"
          "filledForm\<lparr>stored := Malformed\<rparr>"]
        storeFormDataLocally_log [of "submission ''2026-01-01T09:00:00.000Z'' filledForm"
          "filledForm\<lparr>storageFault := WriteFails\<rparr>"]
  by (simp add: filledForm_def canAppend_def)

text \<open>
  C4, as the claim states it, fails on a log that \<^verbatim>\<open>JSON.parse\<close> rejects: the storage
  keeps the corrupt text and the submission is in no entry.
\<close>

theorem corrupt_log_counterexample:
  "stored (storeFormDataLocally (submission ''2026-01-01T09:00:00.000Z'' filledForm)
      (filledForm\<lparr>stored := Malformed\<rparr>)) = Malformed \<and>
   toJson (submission ''2026-01-01T09:00:00.000Z'' filledForm) \<notin>
     set (logEntries (stored (storeFormDataLocally (submission ''2026-01-01T09:00:00.000Z'' filledForm)
      (filledForm\<lparr>stored := Malformed\<rparr>))))"
  by (simp add: storeFormDataLocally_def storeFormDataLocally_try_def logEntries_def filledForm_def)

lemma member_toJson:
  "member (toJson d) ''name'' = Some (JString (fd_name d))"
  "member (toJson d) ''email'' = Some (JString (fd_email d))"
  "member (toJson d) ''zip'' = Some (JString (fd_zip d))"
  "member (toJson d) ''comments'' = Some (JString (fd_comments d))"
  "member (toJson d) ''timestamp'' = Some (JString (fd_timestamp d))"
  "member (toJson d) ''source'' = Some (JString (fd_source d))"
  by (cases "fd_interest d"; cases "fd_espresso_machine d"; simp add: member_def toJson_def)+

lemma member_toJson_choice:
  "fd_interest d = Text t \<Longrightarrow> member (toJson d) ''interest'' = Some (JString t)"
  "fd_espresso_machine d = Text u \<Longrightarrow> member (toJson d) ''espresso_machine'' = Some (JString u)"
  by (cases "fd_interest d"; simp add: member_def toJson_def)+

text \<open>
  C9. The submission that \<^verbatim>\<open>collectFormData\<close> returns, which is the record that
  \<^verbatim>\<open>storeFormDataLocally\<close> appends, carries the constant \<^verbatim>\<open>source\<close> and the timestamp
  beside the form fields, in the object and in its JSON text. The body of the request
  made for it has exactly six entries, keyed by the six entry identifiers and holding the
  six form fields; neither \<^verbatim>\<open>source\<close> nor \<^verbatim>\<open>timestamp\<close> is among them.
\<close>

theorem record_source_and_post_body:
  "(let d = collectFormData now s in
      fd_source d = ''MyLocalBarista Landing Page'' \<and> fd_timestamp d = now \<and>
      member (toJson d) ''source'' = Some (JString ''MyLocalBarista Landing Page'') \<and>
      member (toJson d) ''timestamp'' = Some (JString now) \<and>
      member (toJson d) ''name'' = Some (JString (fd_name d)) \<and>
      member (toJson d) ''email'' = Some (JString (fd_email d)) \<and>
      member (toJson d) ''zip'' = Some (JString (fd_zip d)) \<and>
      member (toJson d) ''comments'' = Some (JString (fd_comments d)) \<and>
      (\<forall>t. fd_interest d = Text t \<longrightarrow> member (toJson d) ''interest'' = Some (JString t)) \<and>
      (\<forall>u. fd_espresso_machine d = Text u \<longrightarrow>
           member (toJson d) ''espresso_machine'' = Some (JString u)) \<and>
      (canAppend s' \<longrightarrow>
         logEntries (stored (storeFormDataLocally d s')) = logEntries (stored s') @ [toJson d]) \<and>
      requests (submitToGoogleForms_begin d s') = requests s' @ [googleFormData d] \<and>
      googleFormData d =
        [(''entry.847057752'', Text (fd_name d)),
         (''entry.508055351'', Text (fd_email d)),
         (''entry.832508456'', Text (fd_zip d)),
         (''entry.1561535688'', fd_interest d),
         (''entry.1117044731'', fd_espresso_machine d),
         (''entry.1572710206'', Text (fd_comments d))])"
proof -
  define d where "d = collectFormData now s"
  have src: "fd_source d = ''MyLocalBarista Landing Page''" "fd_timestamp d = now"
    by (simp_all add: d_def collectFormData_def)
  have body: "googleFormData d =
        [(''entry.847057752'', Text (fd_name d)),
         (''entry.508055351'', Text (fd_email d)),
         (''entry.832508456'', Text (fd_zip d)),
         (''entry.1561535688'', fd_interest d),
         (''entry.1117044731'', fd_espresso_machine d),
         (''entry.1572710206'', Text (fd_comments d))]"
    by (simp add: googleFormData_def entryId_def GOOGLE_FORM_ENTRIES_def)
  have log: "canAppend s' \<longrightarrow>
         logEntries (stored (storeFormDataLocally d s')) = logEntries (stored s') @ [toJson d]"
    by (simp add: stored_after_store logEntries_def)
  have req: "requests (submitToGoogleForms_begin d s') = requests s' @ [googleFormData d]"
    by (simp add: submitToGoogleForms_begin_def)
  from src body log req member_toJson [of d] member_toJson_choice [of d]
  show ?thesis unfolding Let_def d_def [symmetric] by simp
qed

theorem record_source_and_post_body_witness:
  "canAppend filledForm \<and>
   fd_interest (collectFormData ''2026-01-01T09:00:00.000Z'' filledForm) =
     Text ''Training - Learn espresso & latte art'' \<and>
   fd_espresso_machine (collectFormData ''2026-01-01T09:00:00.000Z'' filledForm) =
     Text ''Yes, I have an espresso machine'' \<and>
   member (toJson (collectFormData ''2026-01-01T09:00:00.000Z'' filledForm)) ''interest'' =
     Some (JString ''Training - Learn espresso & latte art'') \<and>
   member (toJson (collectFormData ''2026-01-01T09:00:00.000Z'' filledForm)) ''espresso_machine'' =
     Some (JString ''Yes, I have an espresso machine'') \<and>
   logEntries (stored (storeFormDataLocally
       (collectFormData ''2026-01-01T09:00:00.000Z'' filledForm) filledForm)) =
     [toJson (collectFormData ''2026-01-01T09:00:00.000Z'' filledForm)]"
proof -
  have can: "canAppend filledForm" by (simp add: canAppend_def filledForm_def)
  have empty: "logEntries (stored filledForm) = []" by (simp add: logEntries_def filledForm_def)
  have i: "fd_interest (collectFormData ''2026-01-01T09:00:00.000Z'' filledForm) =
     Text ''Training - Learn espresso & latte art''"
    by code_simp
  have m: "fd_espresso_machine (collectFormData ''2026-01-01T09:00:00.000Z'' filledForm) =
     Text ''Yes, I have an espresso machine''"
    by code_simp
  from record_source_and_post_body [of "''2026-01-01T09:00:00.000Z''" filledForm filledForm]
       can empty i m
  show ?thesis by (simp add: Let_def)
qed

subsection \<open>Theme switching\<close>

lemma updateCSSVariable_keeps:
  "themePart (updateCSSVariable n v s) = themePart s"
  "cssReads (updateCSSVariable n v s) = cssReads s"
  "errors (updateCSSVariable n v s) = errors s"
  "primaryColorPicker (updateCSSVariable n v s) = primaryColorPicker s"
  "secondaryColorPicker (updateCSSVariable n v s) = secondaryColorPicker s"
  "accentColorPicker (updateCSSVariable n v s) = accentColorPicker s"
  "sliderValue (updateCSSVariable n v s) = sliderValue s"
  "roundnessSlider (updateCSSVariable n v s) = roundnessSlider s"
  by (simp_all add: updateCSSVariable_def themePart_def Let_def split: option.splits)

lemma updateColor_themePart:
  "themePart (stateOf (updatePrimaryColor v s)) = themePart s"
  "themePart (stateOf (updateSecondaryColor v s)) = themePart s"
  "themePart (stateOf (updateAccentColor v s)) = themePart s"
  by (simp_all add: updatePrimaryColor_def updateSecondaryColor_def updateAccentColor_def Let_def
        split: sum.splits)
     (simp_all add: themePart_def updateCSSVariable_keeps [unfolded themePart_def])

lemma updateDisplayValues_themePart:
  "themePart (updateDisplayValues s) = themePart s"
  by (simp add: updateDisplayValues_def themePart_def Let_def split: option.splits)

lemma andThen_themePart:
  assumes "themePart (stateOf r) = themePart s"
    and "\<And>s'. themePart (stateOf (f s')) = themePart s'"
  shows "themePart (stateOf (andThen r f)) = themePart s"
  using assms by (cases r) simp_all

lemma applyPreset_themePart:
  "themePart (stateOf (applyPreset presetName s)) = themePart s"
proof (cases "getProperty presets presetName = Absent")
  case True
  then show ?thesis by (simp add: applyPreset_def themePart_def)
next
  case False
  have last: "themePart (stateOf (Done (updateDisplayValues
                (s3\<lparr>primaryColorPicker := a, secondaryColorPicker := b,
                    accentColorPicker := c\<rparr>)))) = themePart s3" for s3 a b c
    by (simp add: updateDisplayValues_themePart) (simp add: themePart_def)
  have chain: "themePart (stateOf
      (andThen (andThen (andThen (updatePrimaryColor p s) (updateSecondaryColor q))
         (updateAccentColor a))
         (\<lambda>s3. Done (updateDisplayValues
            (s3\<lparr>primaryColorPicker := setPickerValue p (primaryColorPicker s3),
                secondaryColorPicker := setPickerValue q (secondaryColorPicker s3),
                accentColorPicker := setPickerValue a (accentColorPicker s3)\<rparr>))))) =
      themePart s" for p q a
    by (intro andThen_themePart updateColor_themePart last)
  from False show ?thesis
    unfolding applyPreset_def Let_def
    by (cases "getProperty presets presetName") (simp_all add: chain)
qed

lemma perform_themePart: "themePart (perform s a) = themePart s"
proof (cases a)
  case (SetRoundedness v)
  then show ?thesis
    by (simp add: updateRoundedness_def Let_def split: option.splits)
       (simp add: themePart_def updateCSSVariable_keeps [unfolded themePart_def])
next
  case TransitionEnds
  then show ?thesis by (simp add: transitionTimeout_def themePart_def)
qed (simp_all add: updateColor_themePart applyPreset_themePart updateDisplayValues_themePart)

lemma run_themePart: "themePart (foldl perform s as) = themePart s"
  by (induction as arbitrary: s) (simp_all add: perform_themePart)

text \<open>
  C6, as the code has it. For a call of \<^verbatim>\<open>switchTheme\<close> with a name that is not empty and
  differs from the current theme, made while exactly one theme stylesheet is present and
  no load is pending, and followed by no other call of \<^verbatim>\<open>switchTheme\<close> before its load
  settles (any other methods of the controller may run in between): the old stylesheet
  stays in the page next to the new one and the current theme is unchanged until the
  load settles; when the new stylesheet has loaded, the old one is removed, the current
  theme is the new name and exactly one theme stylesheet is left; when the load fails,
  the new stylesheet is removed, the old one and the current theme are as before and the
  failure is logged. An empty name is ignored.
\<close>

theorem switchTheme_single_load:
  assumes "themeLinks s = [old]" and "loads s = []"
    and "newTheme \<noteq> []" and "newTheme \<noteq> currentTheme s"
  shows "(let new = \<lparr>linkId = freshLinkId s, href = ''css/style-'' @ newTheme @ ''.css''\<rparr>;
              s1 = switchTheme newTheme s;
              s2 = foldl perform s1 between
          in themeLinks s1 = [old, new] \<and> currentTheme s1 = currentTheme s \<and>
             themeLinks s2 = [old, new] \<and> currentTheme s2 = currentTheme s \<and>
             themeLinks (themeLoaded (linkId new) s2) = [new] \<and>
             currentTheme (themeLoaded (linkId new) s2) = newTheme \<and>
             loads (themeLoaded (linkId new) s2) = [] \<and>
             themeLinks (themeFailed (linkId new) s2) = [old] \<and>
             currentTheme (themeFailed (linkId new) s2) = currentTheme s \<and>
             loads (themeFailed (linkId new) s2) = [] \<and>
             errors (themeFailed (linkId new) s2) = errors s2 @ [ThemeLoadFailed newTheme]) \<and>
         switchTheme [] s = s"
proof -
  define new where "new = \<lparr>linkId = freshLinkId s, href = ''css/style-'' @ newTheme @ ''.css''\<rparr>"
  define s1 where "s1 = switchTheme newTheme s"
  define s2 where "s2 = foldl perform s1 between"
  have fresh: "freshLinkId s = Suc (linkId old)"
    using assms by (simp add: freshLinkId_def)
  have s1: "themeLinks s1 = [old, new]" "currentTheme s1 = currentTheme s"
      "loads s1 = [\<lparr>oldLink = linkId old, newLink = linkId new, theme = newTheme\<rparr>]"
    using assms by (simp_all add: s1_def new_def switchTheme_def)
  have "themePart s2 = themePart s1"
    unfolding s2_def by (rule run_themePart)
  with s1 have s2: "themeLinks s2 = [old, new]" "currentTheme s2 = currentTheme s"
      "loads s2 = [\<lparr>oldLink = linkId old, newLink = linkId new, theme = newTheme\<rparr>]"
    by (simp_all add: themePart_def)
  have differ: "linkId new \<noteq> linkId old"
    using fresh by (simp add: new_def)
  have loaded: "themeLinks (themeLoaded (linkId new) s2) = [new]"
      "currentTheme (themeLoaded (linkId new) s2) = newTheme"
      "loads (themeLoaded (linkId new) s2) = []"
    using s2 differ by (simp_all add: themeLoaded_def)
  have failed: "themeLinks (themeFailed (linkId new) s2) = [old]"
      "currentTheme (themeFailed (linkId new) s2) = currentTheme s"
      "loads (themeFailed (linkId new) s2) = []"
      "errors (themeFailed (linkId new) s2) = errors s2 @ [ThemeLoadFailed newTheme]"
    using s2 differ by (simp_all add: themeFailed_def)
  have "switchTheme [] s = s" by (simp add: switchTheme_def)
  with s1 s2 loaded failed show ?thesis
    unfolding Let_def new_def [symmetric] s1_def [symmetric] s2_def [symmetric] by simp
qed

theorem switchTheme_single_load_witness:
  "themeLinks loadedPage = [\<lparr>linkId = 0, href = ''css/style-classic.css''\<rparr>] \<and>
   loads loadedPage = [] \<and> ''modern'' \<noteq> currentTheme loadedPage \<and>
   themeLinks (switchTheme ''modern'' loadedPage) =
     [\<lparr>linkId = 0, href = ''css/style-classic.css''\<rparr>,
      \<lparr>linkId = 1, href = ''css/style-modern.css''\<rparr>] \<and>
   currentTheme (switchTheme ''modern'' loadedPage) = ''classic'' \<and>
   themeLinks (themeLoaded 1 (foldl perform (switchTheme ''modern'' loadedPage)
        [ApplyPreset ''coffee'', TransitionEnds])) =
     [\<lparr>linkId = 1, href = ''css/style-modern.css''\<rparr>] \<and>
   currentTheme (themeLoaded 1 (foldl perform (switchTheme ''modern'' loadedPage)
        [ApplyPreset ''coffee'', TransitionEnds])) = ''modern'' \<and>
   themeLinks (themeFailed 1 (foldl perform (switchTheme ''modern'' loadedPage)
        [ApplyPreset ''coffee'', TransitionEnds])) =
     [\<lparr>linkId = 0, href = ''css/style-classic.css''\<rparr>] \<and>
   currentTheme (themeFailed 1 (foldl perform (switchTheme ''modern'' loadedPage)
        [ApplyPreset ''coffee'', TransitionEnds])) = ''classic''"
proof -
  have links: "themeLinks loadedPage = [\<lparr>linkId = 0, href = ''css/style-classic.css''\<rparr>]"
    and none: "loads loadedPage = []"
    and other: "''modern'' \<noteq> currentTheme loadedPage"
    and cur: "currentTheme loadedPage = ''classic''"
    by (simp_all add: loadedPage_def)
  have name: "''modern'' \<noteq> []" by simp
  have fresh: "freshLinkId loadedPage = 1" by (simp add: freshLinkId_def loadedPage_def)
  from switchTheme_single_load [OF links none name other,
         of "[ApplyPreset ''coffee'', TransitionEnds]"]
       links none other fresh cur
  show ?thesis by (simp add: Let_def)
qed

text \<open>
  C6, as the claim states it, fails for a call made while another load is pending. On the
  loaded page \<^verbatim>\<open>switchTheme('modern')\<close> is followed by \<^verbatim>\<open>switchTheme('warm')\<close>, a name that
  differs from the current theme, which is still classic; both stylesheets load. The
  stylesheet of the second call has loaded and the current theme is its name, but two
  theme stylesheets are left.
\<close>

theorem switchTheme_race_counterexample:
  "''warm'' \<noteq> currentTheme (switchTheme ''modern'' loadedPage) \<and>
   map href (themeLinks (switchTheme ''warm'' (switchTheme ''modern'' loadedPage))) =
     [''css/style-classic.css'', ''css/style-warm.css'', ''css/style-modern.css''] \<and>
   map href (themeLinks (themeLoaded 2 (themeLoaded 1
       (switchTheme ''warm'' (switchTheme ''modern'' loadedPage))))) =
     [''css/style-warm.css'', ''css/style-modern.css''] \<and>
   currentTheme (themeLoaded 2 (themeLoaded 1
       (switchTheme ''warm'' (switchTheme ''modern'' loadedPage)))) = ''warm'' \<and>
   length (themeLinks (themeLoaded 2 (themeLoaded 1
       (switchTheme ''warm'' (switchTheme ''modern'' loadedPage))))) \<noteq> 1"
  by code_simp

subsection \<open>Colours and presets\<close>

text \<open>Upper case beyond ASCII, and what a colour input keeps of a text.\<close>

lemma toUpperCase_examples:
  "toUpperCase ''#3b82f6'' = units ''#3B82F6'' \<and>
   toUpperCase [CHR 0xE9, CHR 0xDF, CHR 0xB5, CHR 0xFF, CHR 0xF7] =
     [0xC9, 0x53, 0x53, 0x39C, 0x178, 0xF7]"
  by code_simp

lemma sanitizeColor_examples:
  "sanitizeColor ''#8B4513'' = ''#8b4513'' \<and> sanitizeColor ''8B4513'' = ''#000000'' \<and>
   sanitizeColor ''undefined'' = ''#000000''"
  by code_simp

lemma updateColorDisplay_Str:
  "updateColorDisplay po (Str c) =
     Inr (map_option (\<lambda>p. if display p = None then p else p\<lparr>display := Some (toUpperCase c)\<rparr>) po)"
  by (cases po) (auto simp: updateColorDisplay_def split: option.splits)

lemma applyPreset_unknown:
  "getProperty presets presetName = Absent \<Longrightarrow>
   applyPreset presetName s = Done (s\<lparr>errors := errors s @ [UnknownPreset presetName]\<rparr>)"
  by (simp add: applyPreset_def)

lemma getProperty_presets_Absent:
  "getProperty presets presetName = Absent \<longleftrightarrow>
     presetName \<notin> set [''coffee'', ''modern'', ''earthy'', ''luxe''] \<and>
     presetName \<notin> set objectPrototypeKeys"
  by (simp add: getProperty_def presets_def)

lemma refreshDisplay_eq:
  "refreshDisplay po =
     map_option (\<lambda>p. if display p = None then p else p\<lparr>display := Some (toUpperCase (pvalue p))\<rparr>) po"
  by (cases po) (simp_all add: refreshDisplay_def updateColorDisplay_Str)

lemma updateDisplayValues_pickers:
  "primaryColorPicker (updateDisplayValues s) = refreshDisplay (primaryColorPicker s)"
  "secondaryColorPicker (updateDisplayValues s) = refreshDisplay (secondaryColorPicker s)"
  "accentColorPicker (updateDisplayValues s) = refreshDisplay (accentColorPicker s)"
  by (simp_all add: updateDisplayValues_def Let_def split: option.splits)

lemma picker_after_preset:
  "refreshDisplay (setPickerValue (Str c)
     (map_option (\<lambda>p. if display p = None then p
                         else p\<lparr>display := Some (toUpperCase c)\<rparr>) po)) =
   map_option (\<lambda>p. \<lparr>pvalue = sanitizeColor c,
        display = map_option (\<lambda>shown. toUpperCase (sanitizeColor c)) (display p)\<rparr>) po"
proof (cases po)
  case None
  then show ?thesis by (simp add: refreshDisplay_eq setPickerValue_def)
next
  case (Some p)
  then show ?thesis
    by (cases "display p") (simp_all add: refreshDisplay_eq setPickerValue_def)
qed

text \<open>
  For a name of the catalog \<^verbatim>\<open>applyPreset\<close> returns and logs nothing, and each picker
  holds the colour of the preset as a colour input keeps it, with the display in upper
  case. On the loaded page the three variables hold the colours of the preset.
\<close>

lemma applyPreset_catalog_display:
  assumes "map_of presets presetName = Some ps"
  shows "thrown (applyPreset presetName s) = None"
    and "errors (stateOf (applyPreset presetName s)) = errors s"
    and "primaryColorPicker (stateOf (applyPreset presetName s)) =
           map_option (\<lambda>p. \<lparr>pvalue = sanitizeColor (primary ps),
                  display = map_option (\<lambda>shown. toUpperCase (sanitizeColor (primary ps)))
                              (display p)\<rparr>)
             (primaryColorPicker s)"
    and "secondaryColorPicker (stateOf (applyPreset presetName s)) =
           map_option (\<lambda>p. \<lparr>pvalue = sanitizeColor (secondary ps),
                  display = map_option (\<lambda>shown. toUpperCase (sanitizeColor (secondary ps)))
                              (display p)\<rparr>)
             (secondaryColorPicker s)"
    and "accentColorPicker (stateOf (applyPreset presetName s)) =
           map_option (\<lambda>p. \<lparr>pvalue = sanitizeColor (accent ps),
                  display = map_option (\<lambda>shown. toUpperCase (sanitizeColor (accent ps)))
                              (display p)\<rparr>)
             (accentColorPicker s)"
  using assms
  by (simp_all add: applyPreset_def getProperty_def updatePrimaryColor_def
        updateSecondaryColor_def updateAccentColor_def updateColorDisplay_Str Let_def
        updateCSSVariable_keeps updateDisplayValues_pickers picker_after_preset
        updateDisplayValues_def split: option.splits)

lemma applyPreset_coffee:
  "thrown (applyPreset ''coffee'' loadedPage) = None \<and>
   cssVars (stateOf (applyPreset ''coffee'' loadedPage)) ''--primary-color'' = Some ''#8B4513'' \<and>
   cssVars (stateOf (applyPreset ''coffee'' loadedPage)) ''--secondary-color'' = Some ''#D2691E'' \<and>
   cssVars (stateOf (applyPreset ''coffee'' loadedPage)) ''--accent-color'' = Some ''#F4E4C1'' \<and>
   primaryColorPicker (stateOf (applyPreset ''coffee'' loadedPage)) =
     Some \<lparr>pvalue = ''#8b4513'', display = Some (units ''#8B4513'')\<rparr> \<and>
   secondaryColorPicker (stateOf (applyPreset ''coffee'' loadedPage)) =
     Some \<lparr>pvalue = ''#d2691e'', display = Some (units ''#D2691E'')\<rparr> \<and>
   accentColorPicker (stateOf (applyPreset ''coffee'' loadedPage)) =
     Some \<lparr>pvalue = ''#f4e4c1'', display = Some (units ''#F4E4C1'')\<rparr>"
  by code_simp

text \<open>
  C7 at the name \<^verbatim>\<open>constructor\<close>, which is not in the catalog: \<^verbatim>\<open>presets['constructor']\<close> is
  the function that every object inherits, so the guard does not return. On the loaded
  page the primary colour becomes the text \<^verbatim>\<open>undefined\<close>, nothing is logged, and the call
  ends with the \<^verbatim>\<open>TypeError\<close> of \<^verbatim>\<open>undefined.toUpperCase()\<close>.
\<close>

theorem applyPreset_inherited_name:
  "''constructor'' \<notin> set (map fst presets) \<and>
   cssVars loadedPage ''--primary-color'' = None \<and>
   thrown (applyPreset ''constructor'' loadedPage) = Some TypeError \<and>
   cssVars (stateOf (applyPreset ''constructor'' loadedPage)) ''--primary-color'' =
     Some ''undefined'' \<and>
   errors (stateOf (applyPreset ''constructor'' loadedPage)) = []"
  by code_simp




end
